theory Spec2Isabelle
  imports Main
begin

section \<open>Python values shared by the two converters\<close>

text \<open>
  An attribute of a target object is \<open>Assigned v\<close> once the module assigns it (through a
  constructor argument it passes, a plain assignment or \<open>set_line\<close>); it is \<open>Unassigned\<close>
  while it still holds whatever the constructor of \<open>mypy.nodes\<close> or \<open>mypy.types\<close> put there.
\<close>

datatype 'a attr = Unassigned | Assigned 'a

text \<open>
  Exceptions are values.  \<open>RecursionError\<close> is what a chain of string re-parses that never
  ends runs into; \<open>OtherError\<close> stands for an exception of the external parser that is not
  a \<open>SyntaxError\<close>.
\<close>

datatype exn =
    RuntimeError string
  | AssertionError string
  | SyntaxError int string
  | AttributeError string
  | IndexError string
  | RecursionError
  | OtherError string

type_synonym 'a res = "exn + 'a"

section \<open>The source tree of \<open>typed_ast\<close>\<close>

text \<open>
  The constructors carry the prefix \<open>ast_\<close> where the module writes \<open>typed_ast.\<close>; the
  fields follow the grammar comments of the module, with the line number \<open>lineno\<close> first
  for the node kinds that have one.  The \<open>Other...\<close> constructors stand for an operator
  object of a class that the tables of the converter do not list.  \<open>ast_Bytes\<close> holds the
  text \<open>str(n.s)\<close> of its bytes, which is all the converter reads of them, and \<open>kw_defaults\<close>
  of \<open>ast_arguments\<close> holds \<open>None\<close> for a keyword-only parameter without default.
\<close>

datatype expr_context = ast_Load | ast_Store | ast_Del | ast_AugLoad | ast_AugStore | ast_Param

datatype boolop = ast_And | ast_Or | OtherBoolop string

datatype operator =
    ast_Add | ast_Sub | ast_Mult | ast_MatMult | ast_Div | ast_Mod | ast_Pow
  | ast_LShift | ast_RShift | ast_BitOr | ast_BitXor | ast_BitAnd | ast_FloorDiv
  | OtherOperator string

datatype unaryop = ast_Invert | ast_Not | ast_UAdd | ast_USub | OtherUnaryop string

datatype cmpop =
    ast_Eq | ast_NotEq | ast_Lt | ast_LtE | ast_Gt | ast_GtE | ast_Is | ast_IsNot
  | ast_In | ast_NotIn | OtherCmpop string

datatype singleton = PyNone | PyTrue | PyFalse

text \<open>
  The payload of a number literal: an \<open>int\<close>, or a \<open>float\<close> or \<open>complex\<close> kept as the text
  of the literal (the converter only passes it on), or an object of another class.
\<close>

datatype num_value = PyInt int | PyFloat string | PyComplex string | PyOtherNum string

datatype (plugins only: size) expr =
    ast_BoolOp int boolop "expr list"
  | ast_BinOp int expr operator expr
  | ast_UnaryOp int unaryop expr
  | ast_Lambda int arguments expr
  | ast_IfExp int expr expr expr
  | ast_Dict int "expr list" "expr list"
  | ast_Set int "expr list"
  | ast_ListComp int expr "comprehension list"
  | ast_SetComp int expr "comprehension list"
  | ast_DictComp int expr expr "comprehension list"
  | ast_GeneratorExp int expr "comprehension list"
  | ast_Await int expr
  | ast_Yield int "expr option"
  | ast_YieldFrom int expr
  | ast_Compare int expr "cmpop list" "expr list"
  | ast_Call int expr "expr list" "keyword list"
  | ast_Num int num_value
  | ast_Str int string
  | ast_Bytes int string
  | ast_NameConstant int singleton
  | ast_Ellipsis int
  | ast_Attribute int expr string expr_context
  | ast_Subscript int expr slice expr_context
  | ast_Starred int expr expr_context
  | ast_Name int string expr_context
  | ast_List int "expr list" expr_context
  | ast_Tuple int "expr list" expr_context
and slice =
    ast_Slice "expr option" "expr option" "expr option"
  | ast_ExtSlice "slice list"
  | ast_Index expr
and comprehension = ast_comprehension expr expr "expr list"
and keyword = ast_keyword "string option" expr
and arguments =
    ast_arguments "arg list" "arg option" "arg list" "expr option list" "arg option" "expr list"
and arg = ast_arg int string "expr option"

datatype withitem = ast_withitem expr "expr option"

datatype import_alias = ast_alias string "string option"

datatype (plugins only: size) stmt =
    ast_FunctionDef int string arguments "stmt list" "expr list" "expr option" "string option"
  | ast_AsyncFunctionDef int string arguments "stmt list" "expr list" "expr option" "string option"
  | ast_ClassDef int string "expr list" "keyword list" "stmt list" "expr list"
  | ast_Return int "expr option"
  | ast_Delete int "expr list"
  | ast_Assign int "expr list" expr "string option"
  | ast_AugAssign int expr operator expr
  | ast_For int expr expr "stmt list" "stmt list" "string option"
  | ast_AsyncFor int expr expr "stmt list" "stmt list"
  | ast_While int expr "stmt list" "stmt list"
  | ast_If int expr "stmt list" "stmt list"
  | ast_With int "withitem list" "stmt list" "string option"
  | ast_AsyncWith int "withitem list" "stmt list"
  | ast_Raise int "expr option" "expr option"
  | ast_Try int "stmt list" "excepthandler list" "stmt list" "stmt list"
  | ast_Assert int expr "expr option"
  | ast_Import int "import_alias list"
  | ast_ImportFrom int "string option" "import_alias list" "int option"
  | ast_Global int "string list"
  | ast_Nonlocal int "string list"
  | ast_Expr int expr
  | ast_Pass int
  | ast_Break int
  | ast_Continue int
and excepthandler = ast_ExceptHandler int "expr option" "string option" "stmt list"

text \<open>\<open>Module(stmt* body, type_ignore* type_ignores)\<close>, a type-ignore being its line number.\<close>

datatype module = ast_Module "stmt list" "int list"

section \<open>The target tree of \<open>mypy.nodes\<close> and the types of \<open>mypy.types\<close>\<close>

datatype arg_kind = ARG_POS | ARG_OPT | ARG_STAR | ARG_NAMED | ARG_STAR2

text \<open>
  Type objects, with the arguments the module passes to their constructors: the last field
  of the first four is the keyword argument \<open>line\<close>.  \<open>AnyType()\<close> is only ever built without
  arguments.  \<open>CallableType\<close> holds the argument types, kinds and names and the return type;
  the back reference \<open>definition\<close> to the function definition is not part of the value.
\<close>

datatype mtype =
    AnyType
  | UnboundType string "mtype list" "int attr"
  | TupleType "mtype list" bool "int attr"
  | TypeList "mtype list" "int attr"
  | EllipsisType "int attr"
  | CallableType "mtype list" "arg_kind list" "string list" mtype

record var =
  var_name :: string
  is_ready :: "bool attr"
  var_line :: "int attr"

text \<open>
  A target node is its line attribute and its kind.  The children that Python leaves
  \<open>None\<close> are options.  \<open>FuncDef\<close> ends with the attribute \<open>is_decorated\<close>, \<open>ClassDef\<close> holds
  name, body block, base expressions, metaclass and the assigned \<open>decorators\<close>.
\<close>

datatype (plugins only: size) node = Node (get_line: "int attr") (kind_of: node_kind)
and node_kind =
    Import "(string \<times> string option) list"
  | ImportAll "string option" "int option"
  | ImportFrom string "int option" "(string \<times> string option) list"
  | FuncDef string "argument list" "node option" "mtype option" "bool attr"
  | OverloadedFuncDef "node list"
  | ClassDef string node "node list" "string option" "node list"
  | Decorator node "node list" var
  | Block "node list"
  | OperatorAssignmentStmt string node node
  | ExpressionStmt node
  | AssignmentStmt "node list" node "mtype option"
  | ReturnStmt "node option"
  | RaiseStmt "node option" "node option"
  | AssertStmt node
  | DelStmt node
  | BreakStmt
  | ContinueStmt
  | PassStmt
  | GlobalDecl "string list"
  | NonlocalDecl "string list"
  | WhileStmt node "node option" "node option"
  | ForStmt node node "node option" "node option"
  | IfStmt "node list" "node option list" "node option"
  | TryStmt "node option" "node option list" "node option list" "node option list"
      "node option" "node option"
  | WithStmt "node list" "node option list" "node option"
  | TupleExpr "node list"
  | GeneratorExpr node "node list" "node list" "node list list"
  | ListComprehension node
  | SetComprehension node
  | DictionaryComprehension node node "node list" "node list" "node list list"
  | ListExpr "node list"
  | ConditionalExpr node node node
  | DictExpr "(node \<times> node) list"
  | SetExpr "node list"
  | NameExpr string
  | IntExpr int
  | StrExpr string
  | BytesExpr string
  | FloatExpr string
  | ComplexExpr string
  | CallExpr node "node list" "arg_kind list" "string option list"
  | SuperExpr string
  | MemberExpr node string
  | IndexExpr node node
  | SliceExpr "node option" "node option" "node option"
  | OpExpr string node node
  | UnaryExpr string node
  | FuncExpr "argument list" "node option"
  | ComparisonExpr "string list" "node list"
  | StarExpr node
  | YieldFromExpr node
  | YieldExpr "node option"
  | EllipsisExpr
and argument =
    Argument (variable: var) (type_annotation: "mtype option") (initializer: "node option")
      (argkind: arg_kind)

section \<open>Helpers\<close>

text \<open>Sequencing of computations that may raise: the first exception ends the computation.\<close>

definition ebind :: "'a res \<Rightarrow> ('a \<Rightarrow> 'b res) \<Rightarrow> 'b res" where
  "ebind m f = (case m of Inl e \<Rightarrow> Inl e | Inr x \<Rightarrow> f x)"

lemma ebind_cong [fundef_cong]:
  "m = m' \<Longrightarrow> (\<And>x. m' = Inr x \<Longrightarrow> f x = f' x) \<Longrightarrow> ebind m f = ebind m' f'"
  by (cases m') (simp_all add: ebind_def)

lemma ebind_simps [simp]:
  "ebind (Inl e) f = Inl e"
  "ebind (Inr x) f = f x"
  by (simp_all add: ebind_def)

text \<open>A list comprehension \<open>[f(x) for x in xs]\<close> whose body may raise.\<close>

fun mapM :: "('a \<Rightarrow> 'b res) \<Rightarrow> 'a list \<Rightarrow> 'b list res" where
  "mapM f [] = Inr []"
| "mapM f (x # xs) = ebind (f x) (\<lambda>y. ebind (mapM f xs) (\<lambda>ys. Inr (y # ys)))"

lemma mapM_cong [fundef_cong]:
  "xs = ys \<Longrightarrow> (\<And>x. x \<in> set ys \<Longrightarrow> f x = g x) \<Longrightarrow> mapM f xs = mapM g ys"
  by (induction ys arbitrary: xs) (auto simp: ebind_def split: sum.splits)

text \<open>Python's slices \<open>xs[:n]\<close> and \<open>xs[n:]\<close> for an integer \<open>n\<close> of either sign.\<close>

definition py_take :: "int \<Rightarrow> 'a list \<Rightarrow> 'a list" where
  "py_take n xs = (if n < 0 then take (nat (int (length xs) + n)) xs else take (nat n) xs)"

definition py_drop :: "int \<Rightarrow> 'a list \<Rightarrow> 'a list" where
  "py_drop n xs = (if n < 0 then drop (nat (int (length xs) + n)) xs else drop (nat n) xs)"

text \<open>\<open>str.strip()\<close>: leading and trailing whitespace removed.\<close>

definition is_space :: "char \<Rightarrow> bool" where
  "is_space c = (c \<in> set [CHR '' '', CHR 0x09, CHR 0x0A, CHR 0x0B, CHR 0x0C, CHR 0x0D])"

definition strip :: "string \<Rightarrow> string" where
  "strip s = rev (dropWhile is_space (rev (dropWhile is_space s)))"

text \<open>\<open>find(f, seq)\<close>: the first item of \<open>seq\<close> that satisfies \<open>f\<close>, or \<open>None\<close>.\<close>

fun find_seq :: "('a \<Rightarrow> bool) \<Rightarrow> 'a list \<Rightarrow> 'a option" where
  "find_seq f [] = None"
| "find_seq f (item # seq) = (if f item then Some item else find_seq f seq)"

section \<open>The external parser\<close>

text \<open>
  \<open>typed_ast.parse\<close> is not part of the module.  It is a parameter of the model, one
  function for each mode the module calls it in:
  \<^item> \<open>parse_exec source fnam\<close> is \<open>typed_ast.parse(source, fnam, 'exec')\<close>;
  \<^item> \<open>parse_eval s\<close> is the \<open>body\<close> of \<open>typed_ast.parse(s, '<type_comment>', 'eval')\<close>;
  \<^item> \<open>parse_func_type s\<close> is \<open>argtypes\<close> and \<open>returns\<close> of
    \<open>typed_ast.parse(s, '<func_type>', 'func_type')\<close>.
\<close>

record typed_ast =
  parse_exec :: "string \<Rightarrow> string option \<Rightarrow> module res"
  parse_eval :: "string \<Rightarrow> expr res"
  parse_func_type :: "string \<Rightarrow> (expr list \<times> expr) res"

text \<open>The class of a source node, as \<open>str(type(node))\<close> prints it in a message.\<close>

primrec expr_class :: "expr \<Rightarrow> string" where
  "expr_class (ast_BoolOp l op vs) = ''BoolOp''"
| "expr_class (ast_BinOp l a op b) = ''BinOp''"
| "expr_class (ast_UnaryOp l op a) = ''UnaryOp''"
| "expr_class (ast_Lambda l as b) = ''Lambda''"
| "expr_class (ast_IfExp l t b e) = ''IfExp''"
| "expr_class (ast_Dict l ks vs) = ''Dict''"
| "expr_class (ast_Set l es) = ''Set''"
| "expr_class (ast_ListComp l e gs) = ''ListComp''"
| "expr_class (ast_SetComp l e gs) = ''SetComp''"
| "expr_class (ast_DictComp l k v gs) = ''DictComp''"
| "expr_class (ast_GeneratorExp l e gs) = ''GeneratorExp''"
| "expr_class (ast_Await l e) = ''Await''"
| "expr_class (ast_Yield l e) = ''Yield''"
| "expr_class (ast_YieldFrom l e) = ''YieldFrom''"
| "expr_class (ast_Compare l a ops bs) = ''Compare''"
| "expr_class (ast_Call l f as ks) = ''Call''"
| "expr_class (ast_Num l n) = ''Num''"
| "expr_class (ast_Str l s) = ''Str''"
| "expr_class (ast_Bytes l s) = ''Bytes''"
| "expr_class (ast_NameConstant l v) = ''NameConstant''"
| "expr_class (ast_Ellipsis l) = ''Ellipsis''"
| "expr_class (ast_Attribute l e a ctx) = ''Attribute''"
| "expr_class (ast_Subscript l e s ctx) = ''Subscript''"
| "expr_class (ast_Starred l e ctx) = ''Starred''"
| "expr_class (ast_Name l i ctx) = ''Name''"
| "expr_class (ast_List l es ctx) = ''List''"
| "expr_class (ast_Tuple l es ctx) = ''Tuple''"

primrec lineno :: "expr \<Rightarrow> int" where
  "lineno (ast_BoolOp l op vs) = l"
| "lineno (ast_BinOp l a op b) = l"
| "lineno (ast_UnaryOp l op a) = l"
| "lineno (ast_Lambda l as b) = l"
| "lineno (ast_IfExp l t b e) = l"
| "lineno (ast_Dict l ks vs) = l"
| "lineno (ast_Set l es) = l"
| "lineno (ast_ListComp l e gs) = l"
| "lineno (ast_SetComp l e gs) = l"
| "lineno (ast_DictComp l k v gs) = l"
| "lineno (ast_GeneratorExp l e gs) = l"
| "lineno (ast_Await l e) = l"
| "lineno (ast_Yield l e) = l"
| "lineno (ast_YieldFrom l e) = l"
| "lineno (ast_Compare l a ops bs) = l"
| "lineno (ast_Call l f as ks) = l"
| "lineno (ast_Num l n) = l"
| "lineno (ast_Str l s) = l"
| "lineno (ast_Bytes l s) = l"
| "lineno (ast_NameConstant l v) = l"
| "lineno (ast_Ellipsis l) = l"
| "lineno (ast_Attribute l e a ctx) = l"
| "lineno (ast_Subscript l e s ctx) = l"
| "lineno (ast_Starred l e ctx) = l"
| "lineno (ast_Name l i ctx) = l"
| "lineno (ast_List l es ctx) = l"
| "lineno (ast_Tuple l es ctx) = l"

text \<open>\<open>str(n.value)\<close> of a singleton constant.\<close>

primrec str_singleton :: "singleton \<Rightarrow> string" where
  "str_singleton PyNone = ''None''"
| "str_singleton PyTrue = ''True''"
| "str_singleton PyFalse = ''False''"

section \<open>The type-annotation converter\<close>

text \<open>
  \<open>TypeConverter_visit T d line n\<close> is \<open>TypeConverter(line=line).visit(n)\<close> for an expression
  \<open>n\<close>, and \<open>TypeConverter_visit_list\<close> is \<open>visit_list\<close>.  A string literal is parsed again
  and converted by the same converter (\<open>visit_Str\<close> calls \<open>parse_type_comment\<close>), which is
  not a recursion on the tree: \<open>d\<close> bounds how deep string literals may nest, and the
  conversion that exceeds it raises \<open>RecursionError\<close>.
\<close>

definition generic_visit_type :: "expr \<Rightarrow> 'a res" where
  "generic_visit_type n = Inl (RuntimeError (''Type node not implemented: '' @ expr_class n))"

fun TypeConverter_visit :: "typed_ast \<Rightarrow> nat \<Rightarrow> int \<Rightarrow> expr \<Rightarrow> mtype res"
  and TypeConverter_visit_list :: "typed_ast \<Rightarrow> nat \<Rightarrow> int \<Rightarrow> expr list \<Rightarrow> mtype list res"
where
  "TypeConverter_visit_list T d line [] = Inr []"
| "TypeConverter_visit_list T d line (e # l) =
     ebind (TypeConverter_visit T d line e) (\<lambda>t.
     ebind (TypeConverter_visit_list T d line l) (\<lambda>ts. Inr (t # ts)))"
| "TypeConverter_visit T d line (ast_Name l ident ctx) = Inr (UnboundType ident [] (Assigned line))"
| "TypeConverter_visit T d line (ast_NameConstant l v) =
     Inr (UnboundType (str_singleton v) [] Unassigned)"
| "TypeConverter_visit T 0 line (ast_Str l s) = Inl RecursionError"
| "TypeConverter_visit T (Suc d) line (ast_Str l s) =
     ebind (parse_eval T (strip s)) (\<lambda>body. TypeConverter_visit T d line body)"
| "TypeConverter_visit T d line (ast_Subscript l v sl ctx) =
     (case sl of
        ast_Index i \<Rightarrow>
          ebind (TypeConverter_visit T d line v) (\<lambda>val.
          case val of
            UnboundType nm args ln \<Rightarrow>
              if args \<noteq> [] then Inl (AssertionError [])
              else
                ebind (case i of
                         ast_Tuple l' elts ctx' \<Rightarrow> TypeConverter_visit_list T d line elts
                       | _ \<Rightarrow> ebind (TypeConverter_visit T d line i) (\<lambda>t. Inr [t]))
                  (\<lambda>params. Inr (UnboundType nm params (Assigned line)))
          | _ \<Rightarrow> Inl (AssertionError []))
      | _ \<Rightarrow> Inl (AssertionError []))"
| "TypeConverter_visit T d line (ast_Tuple l elts ctx) =
     ebind (TypeConverter_visit_list T d line elts) (\<lambda>items.
     Inr (TupleType items True (Assigned line)))"
| "TypeConverter_visit T d line (ast_Attribute l v a ctx) =
     ebind (TypeConverter_visit T d line v) (\<lambda>before_dot.
     case before_dot of
       UnboundType nm args ln \<Rightarrow>
         if args \<noteq> [] then Inl (AssertionError [])
         else Inr (UnboundType (nm @ ''.'' @ a) [] (Assigned line))
     | _ \<Rightarrow> Inl (AssertionError []))"
| "TypeConverter_visit T d line (ast_Ellipsis l) = Inr (EllipsisType (Assigned line))"
| "TypeConverter_visit T d line (ast_List l elts ctx) =
     ebind (TypeConverter_visit_list T d line elts) (\<lambda>items. Inr (TypeList items (Assigned line)))"
| "TypeConverter_visit T d line (ast_BoolOp l op vs) = generic_visit_type (ast_BoolOp l op vs)"
| "TypeConverter_visit T d line (ast_BinOp l a op b) = generic_visit_type (ast_BinOp l a op b)"
| "TypeConverter_visit T d line (ast_UnaryOp l op a) = generic_visit_type (ast_UnaryOp l op a)"
| "TypeConverter_visit T d line (ast_Lambda l as b) = generic_visit_type (ast_Lambda l as b)"
| "TypeConverter_visit T d line (ast_IfExp l t b e) = generic_visit_type (ast_IfExp l t b e)"
| "TypeConverter_visit T d line (ast_Dict l ks vs) = generic_visit_type (ast_Dict l ks vs)"
| "TypeConverter_visit T d line (ast_Set l es) = generic_visit_type (ast_Set l es)"
| "TypeConverter_visit T d line (ast_ListComp l e gs) = generic_visit_type (ast_ListComp l e gs)"
| "TypeConverter_visit T d line (ast_SetComp l e gs) = generic_visit_type (ast_SetComp l e gs)"
| "TypeConverter_visit T d line (ast_DictComp l k v gs) = generic_visit_type (ast_DictComp l k v gs)"
| "TypeConverter_visit T d line (ast_GeneratorExp l e gs) =
     generic_visit_type (ast_GeneratorExp l e gs)"
| "TypeConverter_visit T d line (ast_Await l e) = generic_visit_type (ast_Await l e)"
| "TypeConverter_visit T d line (ast_Yield l e) = generic_visit_type (ast_Yield l e)"
| "TypeConverter_visit T d line (ast_YieldFrom l e) = generic_visit_type (ast_YieldFrom l e)"
| "TypeConverter_visit T d line (ast_Compare l a ops bs) = generic_visit_type (ast_Compare l a ops bs)"
| "TypeConverter_visit T d line (ast_Call l f as ks) = generic_visit_type (ast_Call l f as ks)"
| "TypeConverter_visit T d line (ast_Num l n) = generic_visit_type (ast_Num l n)"
| "TypeConverter_visit T d line (ast_Bytes l s) = generic_visit_type (ast_Bytes l s)"
| "TypeConverter_visit T d line (ast_Starred l e ctx) = generic_visit_type (ast_Starred l e ctx)"

text \<open>\<open>visit\<close> of an optional node: \<open>visit_NoneType\<close> returns \<open>None\<close>.\<close>

definition TypeConverter_visit_opt :: "typed_ast \<Rightarrow> nat \<Rightarrow> int \<Rightarrow> expr option \<Rightarrow> mtype option res" where
  "TypeConverter_visit_opt T d line n =
     (case n of None \<Rightarrow> Inr None
      | Some e \<Rightarrow> ebind (TypeConverter_visit T d line e) (\<lambda>t. Inr (Some t)))"

definition parse_type_comment :: "typed_ast \<Rightarrow> nat \<Rightarrow> string \<Rightarrow> int \<Rightarrow> mtype res" where
  "parse_type_comment T d type_comment line =
     (case d of
        0 \<Rightarrow> Inl RecursionError
      | Suc d' \<Rightarrow> ebind (parse_eval T type_comment) (\<lambda>body. TypeConverter_visit T d' line body))"

lemma visit_Str_parse_type_comment:
  "TypeConverter_visit T d line (ast_Str l s) = parse_type_comment T d (strip s) line"
  by (cases d) (simp_all add: parse_type_comment_def)

section \<open>The statement and expression converter\<close>

subsection \<open>Nodes and their lines\<close>

text \<open>A node as its constructor returns it: the module has assigned no line yet.\<close>

definition new :: "node_kind \<Rightarrow> node" where
  "new k = Node Unassigned k"

text \<open>
  Modelled from the spec: \<open>set_line\<close> of \<open>mypy.nodes\<close> is not in the sources.  The spec has
  every target node carry a source line number; \<open>set_line\<close> assigns it to the node it is
  called on.
\<close>

definition set_line :: "int \<Rightarrow> node \<Rightarrow> node" where
  "set_line l n = Node (Assigned l) (kind_of n)"

text \<open>The decorator \<open>with_line\<close>, applied to the result of the wrapped method.\<close>

definition with_line :: "int \<Rightarrow> node res \<Rightarrow> node res" where
  "with_line l r = ebind r (\<lambda>node. Inr (set_line l node))"

text \<open>\<open>visit_list\<close>, and \<open>visit\<close> of a child that may be \<open>None\<close> (\<open>visit_NoneType\<close>).\<close>

definition visit_list :: "('a \<Rightarrow> 'b res) \<Rightarrow> 'a list \<Rightarrow> 'b list res" where
  "visit_list visit l = mapM visit l"

definition visit_opt :: "('a \<Rightarrow> 'b res) \<Rightarrow> 'a option \<Rightarrow> 'b option res" where
  "visit_opt visit n = (case n of None \<Rightarrow> Inr None | Some e \<Rightarrow> ebind (visit e) (\<lambda>r. Inr (Some r)))"

lemma visit_list_cong [fundef_cong]:
  "xs = ys \<Longrightarrow> (\<And>x. x \<in> set ys \<Longrightarrow> f x = g x) \<Longrightarrow> visit_list f xs = visit_list g ys"
  unfolding visit_list_def by (rule mapM_cong)

lemma visit_opt_cong [fundef_cong]:
  "n = m \<Longrightarrow> (\<And>e. m = Some e \<Longrightarrow> f e = g e) \<Longrightarrow> visit_opt f n = visit_opt g m"
  by (cases m) (simp_all add: visit_opt_def)

subsection \<open>Operator tables\<close>

primrec operator_class :: "operator \<Rightarrow> string" where
  "operator_class ast_Add = ''Add''"
| "operator_class ast_Sub = ''Sub''"
| "operator_class ast_Mult = ''Mult''"
| "operator_class ast_MatMult = ''MatMult''"
| "operator_class ast_Div = ''Div''"
| "operator_class ast_Mod = ''Mod''"
| "operator_class ast_Pow = ''Pow''"
| "operator_class ast_LShift = ''LShift''"
| "operator_class ast_RShift = ''RShift''"
| "operator_class ast_BitOr = ''BitOr''"
| "operator_class ast_BitXor = ''BitXor''"
| "operator_class ast_BitAnd = ''BitAnd''"
| "operator_class ast_FloorDiv = ''FloorDiv''"
| "operator_class (OtherOperator c) = c"

text \<open>\<open>op_map.get(type(op))\<close>.\<close>

primrec op_map :: "operator \<Rightarrow> string option" where
  "op_map ast_Add = Some ''+''"
| "op_map ast_Sub = Some ''-''"
| "op_map ast_Mult = Some ''*''"
| "op_map ast_MatMult = Some ''@''"
| "op_map ast_Div = Some ''/''"
| "op_map ast_Mod = Some ''%''"
| "op_map ast_Pow = Some ''**''"
| "op_map ast_LShift = Some ''<<''"
| "op_map ast_RShift = Some ''>>''"
| "op_map ast_BitOr = Some ''|''"
| "op_map ast_BitXor = Some ''^''"
| "op_map ast_BitAnd = Some ''&''"
| "op_map ast_FloorDiv = Some ''//''"
| "op_map (OtherOperator c) = None"

definition from_operator :: "operator \<Rightarrow> string res" where
  "from_operator op =
     (case op_map op of
        None \<Rightarrow> Inl (RuntimeError (''Unknown operator '' @ operator_class op))
      | Some op_name \<Rightarrow>
          if op_name = ''@'' then Inl (RuntimeError ''mypy does not support the MatMult operator'')
          else Inr op_name)"

primrec cmpop_class :: "cmpop \<Rightarrow> string" where
  "cmpop_class ast_Gt = ''Gt''"
| "cmpop_class ast_Lt = ''Lt''"
| "cmpop_class ast_Eq = ''Eq''"
| "cmpop_class ast_GtE = ''GtE''"
| "cmpop_class ast_LtE = ''LtE''"
| "cmpop_class ast_NotEq = ''NotEq''"
| "cmpop_class ast_Is = ''Is''"
| "cmpop_class ast_IsNot = ''IsNot''"
| "cmpop_class ast_In = ''In''"
| "cmpop_class ast_NotIn = ''NotIn''"
| "cmpop_class (OtherCmpop c) = c"

primrec comp_op_map :: "cmpop \<Rightarrow> string option" where
  "comp_op_map ast_Gt = Some ''>''"
| "comp_op_map ast_Lt = Some ''<''"
| "comp_op_map ast_Eq = Some ''==''"
| "comp_op_map ast_GtE = Some ''>=''"
| "comp_op_map ast_LtE = Some ''<=''"
| "comp_op_map ast_NotEq = Some ''!=''"
| "comp_op_map ast_Is = Some ''is''"
| "comp_op_map ast_IsNot = Some ''is not''"
| "comp_op_map ast_In = Some ''in''"
| "comp_op_map ast_NotIn = Some ''not in''"
| "comp_op_map (OtherCmpop c) = None"

definition from_comp_operator :: "cmpop \<Rightarrow> string res" where
  "from_comp_operator op =
     (case comp_op_map op of
        None \<Rightarrow> Inl (RuntimeError (''Unknown comparison operator '' @ cmpop_class op))
      | Some op_name \<Rightarrow> Inr op_name)"

text \<open>The \<open>isinstance\<close> chains of \<open>visit_BoolOp\<close> and \<open>visit_UnaryOp\<close>.\<close>

primrec boolop_name :: "boolop \<Rightarrow> string option" where
  "boolop_name ast_And = Some ''and''"
| "boolop_name ast_Or = Some ''or''"
| "boolop_name (OtherBoolop c) = None"

primrec unaryop_name :: "unaryop \<Rightarrow> string option" where
  "unaryop_name ast_Invert = Some ''~''"
| "unaryop_name ast_Not = Some ''not''"
| "unaryop_name ast_UAdd = Some ''+''"
| "unaryop_name ast_USub = Some ''-''"
| "unaryop_name (OtherUnaryop c) = None"

primrec unaryop_class :: "unaryop \<Rightarrow> string" where
  "unaryop_class ast_Invert = ''Invert''"
| "unaryop_class ast_Not = ''Not''"
| "unaryop_class ast_UAdd = ''UAdd''"
| "unaryop_class ast_USub = ''USub''"
| "unaryop_class (OtherUnaryop c) = c"

subsection \<open>Pieces of the expression handlers\<close>

text \<open>
  The local function \<open>group\<close> of \<open>visit_BoolOp\<close>.  \<open>vals[0]\<close> of an empty list raises
  \<open>IndexError\<close>.
\<close>

fun group :: "string \<Rightarrow> node list \<Rightarrow> node res" where
  "group op vals =
     (if length vals = 2 then Inr (new (OpExpr op (vals ! 0) (vals ! 1)))
      else case vals of
             [] \<Rightarrow> Inl (IndexError ''list index out of range'')
           | v # rest \<Rightarrow> ebind (group op rest) (\<lambda>g. Inr (new (OpExpr op v g))))"

declare group.simps [simp del]

text \<open>
  The local function \<open>make_argument\<close> of \<open>transform_args\<close>.  Its second parameter is the
  outcome of \<open>self.visit(default)\<close>, which the function evaluates after the annotation.
\<close>

primrec arg_annotation :: "arg \<Rightarrow> expr option" where
  "arg_annotation (ast_arg l a ann) = ann"

primrec arg_arg :: "arg \<Rightarrow> string" where
  "arg_arg (ast_arg l a ann) = a"

definition Var :: "string \<Rightarrow> var" where
  "Var name = \<lparr>var_name = name, is_ready = Unassigned, var_line = Unassigned\<rparr>"

definition make_argument ::
  "typed_ast \<Rightarrow> nat \<Rightarrow> int \<Rightarrow> arg \<Rightarrow> node option res \<Rightarrow> arg_kind \<Rightarrow> argument res" where
  "make_argument T d line a visited_default kind =
     ebind (TypeConverter_visit_opt T d line (arg_annotation a)) (\<lambda>arg_type.
     ebind visited_default (\<lambda>init.
     Inr (Argument (Var (arg_arg a)) arg_type init kind)))"

text \<open>The tests of \<open>visit_Call\<close> and \<open>visit_Attribute\<close>.\<close>

definition is_stararg :: "expr \<Rightarrow> bool" where
  "is_stararg a = (case a of ast_Starred l v ctx \<Rightarrow> True | _ \<Rightarrow> False)"

definition unstar :: "expr \<Rightarrow> expr" where
  "unstar a = (case a of ast_Starred l v ctx \<Rightarrow> v | _ \<Rightarrow> a)"

primrec keyword_arg :: "keyword \<Rightarrow> string option" where
  "keyword_arg (ast_keyword a v) = a"

primrec keyword_value :: "keyword \<Rightarrow> expr" where
  "keyword_value (ast_keyword a v) = v"

definition is_star2arg :: "keyword \<Rightarrow> bool" where
  "is_star2arg k = (keyword_arg k = None)"

definition is_super_call :: "expr \<Rightarrow> bool" where
  "is_super_call v =
     (case v of
        ast_Call l f as ks \<Rightarrow> (case f of ast_Name l' ident ctx \<Rightarrow> ident = ''super'' | _ \<Rightarrow> False)
      | _ \<Rightarrow> False)"

primrec comp_target :: "comprehension \<Rightarrow> expr" where
  "comp_target (ast_comprehension t i fs) = t"

primrec comp_iter :: "comprehension \<Rightarrow> expr" where
  "comp_iter (ast_comprehension t i fs) = i"

primrec comp_ifs :: "comprehension \<Rightarrow> expr list" where
  "comp_ifs (ast_comprehension t i fs) = fs"

lemma size_unstar [termination_simp]: "size (unstar a) \<le> size a"
  by (cases a) (simp_all add: unstar_def)

lemma size_keyword_value [termination_simp]: "size (keyword_value k) < size k"
  by (cases k) simp

lemma size_comp_target [termination_simp]: "size (comp_target c) < size c"
  by (cases c) simp

lemma size_comp_iter [termination_simp]: "size (comp_iter c) < size c"
  by (cases c) simp

lemma size_comp_ifs [termination_simp]: "size_list size (comp_ifs c) < size c"
  by (cases c) simp

lemma size_comp_ifs_elem:
  assumes "c \<in> set generators" and "e \<in> set (comp_ifs c)"
  shows "size e < size_list size generators"
proof -
  have "size e \<le> size_list size (comp_ifs c)"
    using assms(2) by (simp add: size_list_estimation')
  also have "\<dots> < size c" by (rule size_comp_ifs)
  also have "\<dots> \<le> size_list size generators"
    using assms(1) by (simp add: size_list_estimation')
  finally show ?thesis .
qed

text \<open>\<open>generic_visit\<close> of the converter.\<close>

definition generic_visit :: "string \<Rightarrow> 'a res" where
  "generic_visit cls = Inl (RuntimeError (''AST node not implemented: '' @ cls))"

text \<open>The body of \<open>visit_GeneratorExp\<close> with its \<open>with_line\<close>, from the outcomes of its visits.\<close>

definition visit_GeneratorExp_of ::
  "int \<Rightarrow> node list res \<Rightarrow> node list res \<Rightarrow> node list list res \<Rightarrow> node res \<Rightarrow> node res" where
  "visit_GeneratorExp_of l targets iters ifs_list elt =
     with_line l
       (ebind targets (\<lambda>ts. ebind iters (\<lambda>its. ebind ifs_list (\<lambda>fs. ebind elt (\<lambda>e.
          Inr (new (GeneratorExpr e ts its fs)))))))"

subsection \<open>Expressions, slices and parameter lists\<close>

text \<open>
  \<open>visit_expr T d n\<close> is \<open>ASTConverter.visit(n)\<close> for an expression \<open>n\<close>: one equation for each
  \<open>visit_\<close> method, in the order of evaluation of the method.  No expression handler reads
  or writes the attributes \<open>in_class\<close> and \<open>imports\<close> of the converter, so the converter
  object is no parameter here.  \<open>transform_args T d args line\<close> is the method of that name.
\<close>

function visit_expr :: "typed_ast \<Rightarrow> nat \<Rightarrow> expr \<Rightarrow> node res"
  and visit_slice :: "typed_ast \<Rightarrow> nat \<Rightarrow> slice \<Rightarrow> node res"
  and transform_args :: "typed_ast \<Rightarrow> nat \<Rightarrow> arguments \<Rightarrow> int \<Rightarrow> argument list res"
where
  "visit_expr T d (ast_BoolOp l op values) =
     (if \<not> 2 \<le> length values then Inl (AssertionError [])
      else case boolop_name op of
             None \<Rightarrow> Inl (RuntimeError (''unknown BoolOp '' @ ''BoolOp''))
           | Some op_name \<Rightarrow>
               with_line l
                 (ebind (visit_list (visit_expr T d) values) (\<lambda>vals. group op_name vals)))"
| "visit_expr T d (ast_BinOp l left op right) =
     with_line l
       (ebind (from_operator op) (\<lambda>op_name.
        ebind (visit_expr T d left) (\<lambda>a.
        ebind (visit_expr T d right) (\<lambda>b.
        Inr (new (OpExpr op_name a b))))))"
| "visit_expr T d (ast_UnaryOp l op operand) =
     with_line l
       (case unaryop_name op of
          None \<Rightarrow> Inl (RuntimeError (''cannot translate UnaryOp '' @ unaryop_class op))
        | Some op_name \<Rightarrow>
            ebind (visit_expr T d operand) (\<lambda>a. Inr (new (UnaryExpr op_name a))))"
| "visit_expr T d (ast_Lambda l args body) =
     with_line l
       (ebind (transform_args T d args l) (\<lambda>new_args.
        ebind (with_line l (ebind (visit_expr T d body) (\<lambda>v. Inr (new (ReturnStmt (Some v)))))) (\<lambda>ret.
        Inr (new (FuncExpr new_args (Some (set_line l (new (Block [ret]))))))))) "
| "visit_expr T d (ast_IfExp l test body orelse) =
     with_line l
       (ebind (visit_expr T d test) (\<lambda>c.
        ebind (visit_expr T d body) (\<lambda>a.
        ebind (visit_expr T d orelse) (\<lambda>b.
        Inr (new (ConditionalExpr c a b))))))"
| "visit_expr T d (ast_Dict l keys vals) =
     with_line l
       (ebind (visit_list (visit_expr T d) keys) (\<lambda>ks.
        ebind (visit_list (visit_expr T d) vals) (\<lambda>vs.
        Inr (new (DictExpr (zip ks vs))))))"
| "visit_expr T d (ast_Set l elts) =
     with_line l (ebind (visit_list (visit_expr T d) elts) (\<lambda>es. Inr (new (SetExpr es))))"
| "visit_expr T d (ast_ListComp l elt generators) =
     with_line l
       (ebind (visit_GeneratorExp_of l
                 (visit_list (\<lambda>c. visit_expr T d (comp_target c)) generators)
                 (visit_list (\<lambda>c. visit_expr T d (comp_iter c)) generators)
                 (visit_list (\<lambda>c. visit_list (visit_expr T d) (comp_ifs c)) generators)
                 (visit_expr T d elt))
          (\<lambda>g. Inr (new (ListComprehension g))))"
| "visit_expr T d (ast_SetComp l elt generators) =
     with_line l
       (ebind (visit_GeneratorExp_of l
                 (visit_list (\<lambda>c. visit_expr T d (comp_target c)) generators)
                 (visit_list (\<lambda>c. visit_expr T d (comp_iter c)) generators)
                 (visit_list (\<lambda>c. visit_list (visit_expr T d) (comp_ifs c)) generators)
                 (visit_expr T d elt))
          (\<lambda>g. Inr (new (SetComprehension g))))"
| "visit_expr T d (ast_DictComp l key val generators) =
     with_line l
       (ebind (visit_list (\<lambda>c. visit_expr T d (comp_target c)) generators) (\<lambda>targets.
        ebind (visit_list (\<lambda>c. visit_expr T d (comp_iter c)) generators) (\<lambda>iters.
        ebind (visit_list (\<lambda>c. visit_list (visit_expr T d) (comp_ifs c)) generators) (\<lambda>ifs_list.
        ebind (visit_expr T d key) (\<lambda>k.
        ebind (visit_expr T d val) (\<lambda>v.
        Inr (new (DictionaryComprehension k v targets iters ifs_list))))))))"
| "visit_expr T d (ast_GeneratorExp l elt generators) =
     visit_GeneratorExp_of l
       (visit_list (\<lambda>c. visit_expr T d (comp_target c)) generators)
       (visit_list (\<lambda>c. visit_expr T d (comp_iter c)) generators)
       (visit_list (\<lambda>c. visit_list (visit_expr T d) (comp_ifs c)) generators)
       (visit_expr T d elt)"
| "visit_expr T d (ast_Await l v) = generic_visit ''Await''"
| "visit_expr T d (ast_Yield l v) =
     with_line l (ebind (visit_opt (visit_expr T d) v) (\<lambda>r. Inr (new (YieldExpr r))))"
| "visit_expr T d (ast_YieldFrom l v) =
     with_line l (ebind (visit_expr T d v) (\<lambda>r. Inr (new (YieldFromExpr r))))"
| "visit_expr T d (ast_Compare l left ops comparators) =
     with_line l
       (ebind (visit_list from_comp_operator ops) (\<lambda>operators.
        ebind (visit_list (visit_expr T d) ([left] @ comparators)) (\<lambda>operands.
        Inr (new (ComparisonExpr operators operands)))))"
| "visit_expr T d (ast_Call l func args keywords) =
     with_line l
       (ebind (visit_list (visit_expr T d) (map unstar args @ map keyword_value keywords))
          (\<lambda>arg_types.
        let arg_kinds = map (\<lambda>a. if is_stararg a then ARG_STAR else ARG_POS) args @
                        map (\<lambda>k. if is_star2arg k then ARG_STAR2 else ARG_NAMED) keywords
        in ebind (visit_expr T d func) (\<lambda>callee.
           Inr (new (CallExpr callee arg_types arg_kinds
                  (map (\<lambda>_. None) args @ map keyword_arg keywords))))))"
| "visit_expr T d (ast_Num l n) =
     with_line l
       (case n of
          PyInt i \<Rightarrow> Inr (new (IntExpr i))
        | PyFloat f \<Rightarrow> Inr (new (FloatExpr f))
        | PyComplex c \<Rightarrow> Inr (new (ComplexExpr c))
        | PyOtherNum cls \<Rightarrow> Inl (RuntimeError (''num not implemented for '' @ cls)))"
| "visit_expr T d (ast_Str l s) = with_line l (Inr (new (StrExpr s)))"
| "visit_expr T d (ast_Bytes l s) = with_line l (Inr (new (BytesExpr (butlast (drop 2 s)))))"
| "visit_expr T d (ast_NameConstant l v) = Inr (new (NameExpr (str_singleton v)))"
| "visit_expr T d (ast_Ellipsis l) = with_line l (Inr (new EllipsisExpr))"
| "visit_expr T d (ast_Attribute l v a ctx) =
     with_line l
       (if is_super_call v then Inr (new (SuperExpr a))
        else ebind (visit_expr T d v) (\<lambda>e. Inr (new (MemberExpr e a))))"
| "visit_expr T d (ast_Subscript l v sl ctx) =
     with_line l
       (ebind (visit_expr T d v) (\<lambda>base.
        ebind (visit_slice T d sl) (\<lambda>index.
        Inr (new (IndexExpr base index)))))"
| "visit_expr T d (ast_Starred l v ctx) =
     with_line l (ebind (visit_expr T d v) (\<lambda>e. Inr (new (StarExpr e))))"
| "visit_expr T d (ast_Name l ident ctx) = with_line l (Inr (new (NameExpr ident)))"
| "visit_expr T d (ast_List l elts ctx) =
     with_line l (ebind (visit_list (visit_expr T d) elts) (\<lambda>es. Inr (new (ListExpr es))))"
| "visit_expr T d (ast_Tuple l elts ctx) =
     with_line l (ebind (visit_list (visit_expr T d) elts) (\<lambda>es. Inr (new (TupleExpr es))))"
| "visit_slice T d (ast_Slice lower upper step) =
     ebind (visit_opt (visit_expr T d) lower) (\<lambda>lo.
     ebind (visit_opt (visit_expr T d) upper) (\<lambda>up.
     ebind (visit_opt (visit_expr T d) step) (\<lambda>st.
     Inr (new (SliceExpr lo up st)))))"
| "visit_slice T d (ast_ExtSlice dims) =
     ebind (visit_list (visit_slice T d) dims) (\<lambda>ds. Inr (new (TupleExpr ds)))"
| "visit_slice T d (ast_Index v) = visit_expr T d v"
| "transform_args T d (ast_arguments args vararg kwonlyargs kw_defaults kwarg defaults) line =
     (let num_no_defaults = int (length args) - int (length defaults) in
      ebind (mapM (\<lambda>a. make_argument T d line a (Inr None) ARG_POS)
               (py_take num_no_defaults args)) (\<lambda>positional.
      ebind (mapM (\<lambda>(a, visited). make_argument T d line a visited ARG_OPT)
               (zip (py_drop num_no_defaults args)
                  (map (\<lambda>df. visit_opt (visit_expr T d) (Some df)) defaults))) (\<lambda>optional.
      ebind (case vararg of
               None \<Rightarrow> Inr []
             | Some a \<Rightarrow> ebind (make_argument T d line a (Inr None) ARG_STAR) (\<lambda>x. Inr [x]))
        (\<lambda>star.
      let num_no_kw_defaults = int (length kwonlyargs) - int (length kw_defaults) in
      ebind (mapM (\<lambda>a. make_argument T d line a (Inr None) ARG_NAMED)
               (py_take num_no_kw_defaults kwonlyargs)) (\<lambda>kw_required.
      ebind (mapM (\<lambda>(a, visited). make_argument T d line a visited ARG_NAMED)
               (zip (py_drop num_no_kw_defaults kwonlyargs)
                  (map (\<lambda>df. visit_opt (visit_expr T d) df) kw_defaults))) (\<lambda>kw_optional.
      ebind (case kwarg of
               None \<Rightarrow> Inr []
             | Some a \<Rightarrow> ebind (make_argument T d line a (Inr None) ARG_STAR2) (\<lambda>x. Inr [x]))
        (\<lambda>star2.
      Inr (positional @ optional @ star @ kw_required @ kw_optional @ star2))))))))"
  by pat_completeness auto

termination
  by (relation "measure (\<lambda>x. case x of
      Inl (T, d, e) \<Rightarrow> size e
    | Inr (Inl (T, d, sl)) \<Rightarrow> size sl
    | Inr (Inr (T, d, args, line)) \<Rightarrow> size args)")
    (auto simp: termination_simp dest!: size_comp_ifs_elem)

subsection \<open>The converter object\<close>

text \<open>
  The two attributes of an \<open>ASTConverter\<close>: the flag \<open>in_class\<close> and the list \<open>imports\<close>.  A
  method that assigns one of them returns the converter along with its result.
\<close>

record ASTConverter =
  in_class :: bool
  imports_acc :: "node list"

definition with_line_s :: "int \<Rightarrow> (node \<times> 's) res \<Rightarrow> (node \<times> 's) res" where
  "with_line_s l r = ebind r (\<lambda>(node, self). Inr (set_line l node, self))"

text \<open>
  \<open>as_block\<close>; its first parameter is \<open>self.visit\<close> on a statement list.  An empty list gives
  \<open>None\<close>, not an empty block.
\<close>

definition as_block ::
  "(stmt list \<Rightarrow> 's \<Rightarrow> (node list \<times> 's) res) \<Rightarrow> stmt list \<Rightarrow> int \<Rightarrow> 's \<Rightarrow> (node option \<times> 's) res" where
  "as_block visit stmts l self =
     (if stmts = [] then Inr (None, self)
      else ebind (visit stmts self) (\<lambda>(ns, self'). Inr (Some (set_line l (new (Block ns))), self')))"

lemma as_block_cong [fundef_cong]:
  "stmts = stmts' \<Longrightarrow> l = l' \<Longrightarrow> self = self' \<Longrightarrow>
   (stmts' \<noteq> [] \<Longrightarrow> v stmts' self' = v' stmts' self') \<Longrightarrow>
   as_block v stmts l self = as_block v' stmts' l' self'"
  by (simp add: as_block_def)

subsection \<open>Folding overloads\<close>

definition is_Decorator :: "node \<Rightarrow> bool" where
  "is_Decorator stmt = (case kind_of stmt of Decorator f ds v \<Rightarrow> True | _ \<Rightarrow> False)"

text \<open>
  Modelled from the spec: the method \<open>name()\<close> of \<open>mypy.nodes\<close> is not in the sources.  It is
  the defining name of a decorated function definition, the name of the function
  definition it wraps.
\<close>

definition name :: "node \<Rightarrow> string" where
  "name stmt =
     (case kind_of stmt of
        Decorator f ds v \<Rightarrow> (case kind_of f of FuncDef nm as b t dec \<Rightarrow> nm | _ \<Rightarrow> [])
      | FuncDef nm as b t dec \<Rightarrow> nm
      | _ \<Rightarrow> [])"

text \<open>
  The two identical \<open>if\<close>/\<open>elif\<close> blocks of \<open>fix_function_overloads\<close> that append the
  pending overload to \<open>ret\<close>.
\<close>

definition flush_overload :: "node list \<Rightarrow> node list \<Rightarrow> node list" where
  "flush_overload ret current_overload =
     (if length current_overload = 1 then ret @ [current_overload ! 0]
      else if length current_overload > 1 then ret @ [new (OverloadedFuncDef current_overload)]
      else ret)"

text \<open>The loop of \<open>fix_function_overloads\<close> over \<open>stmts\<close>, with its three variables.\<close>

fun overloads_loop :: "node list \<Rightarrow> node list \<Rightarrow> node list \<Rightarrow> string option \<Rightarrow> node list" where
  "overloads_loop [] ret current_overload current_overload_name =
     flush_overload ret current_overload"
| "overloads_loop (stmt # stmts) ret current_overload current_overload_name =
     (if is_Decorator stmt \<and> Some (name stmt) = current_overload_name
      then overloads_loop stmts ret (current_overload @ [stmt]) current_overload_name
      else if is_Decorator stmt
      then overloads_loop stmts (flush_overload ret current_overload) [stmt] (Some (name stmt))
      else overloads_loop stmts (flush_overload ret current_overload @ [stmt]) [] None)"

definition fix_function_overloads :: "node list \<Rightarrow> node list" where
  "fix_function_overloads stmts = overloads_loop stmts [] [] None"

subsection \<open>Pieces of the statement handlers\<close>

fun stringify_name :: "expr \<Rightarrow> string res" where
  "stringify_name (ast_Name l ident ctx) = Inr ident"
| "stringify_name (ast_Attribute l v a ctx) = ebind (stringify_name v) (\<lambda>s. Inr (s @ ''.'' @ a))"
| "stringify_name n = Inl (AssertionError (''can't stringify '' @ expr_class n))"

text \<open>The type-comment branch of \<open>visit_FunctionDef\<close>: the argument types and the return type.\<close>

definition type_comment_signature ::
  "typed_ast \<Rightarrow> nat \<Rightarrow> int \<Rightarrow> bool \<Rightarrow> string \<Rightarrow> argument list \<Rightarrow> (mtype option list \<times> mtype option) res" where
  "type_comment_signature T d l in_cls type_comment args =
     ebind (parse_func_type T type_comment) (\<lambda>(argtypes, returns).
     ebind (TypeConverter_visit_list T d l argtypes) (\<lambda>converted.
     ebind (TypeConverter_visit T d l returns) (\<lambda>return_type.
     let arg_types = map Some converted in
     Inr (if in_cls \<and> length arg_types < length args then Some AnyType # arg_types else arg_types,
          Some return_type))))"

text \<open>The annotation branch.\<close>

definition annotation_signature ::
  "typed_ast \<Rightarrow> nat \<Rightarrow> int \<Rightarrow> expr option \<Rightarrow> argument list \<Rightarrow> (mtype option list \<times> mtype option) res" where
  "annotation_signature T d l returns args =
     ebind (TypeConverter_visit_opt T d l returns) (\<lambda>return_type.
     Inr (map type_annotation args, return_type))"

text \<open>
  \<open>func_type\<close>: a type object is true, \<open>None\<close> is false, and \<open>None\<close> becomes \<open>AnyType()\<close> in
  the signature.
\<close>

definition or_any :: "mtype option \<Rightarrow> mtype" where
  "or_any a = (case a of None \<Rightarrow> AnyType | Some t \<Rightarrow> t)"

definition make_func_type ::
  "mtype option list \<Rightarrow> arg_kind list \<Rightarrow> string list \<Rightarrow> mtype option \<Rightarrow> mtype option" where
  "make_func_type arg_types arg_kinds arg_names return_type =
     (if list_ex (\<lambda>a. a \<noteq> None) arg_types \<or> return_type \<noteq> None
      then Some (CallableType (map or_any arg_types) arg_kinds arg_names (or_any return_type))
      else None)"

primrec context_expr :: "withitem \<Rightarrow> expr" where
  "context_expr (ast_withitem c v) = c"

primrec optional_vars :: "withitem \<Rightarrow> expr option" where
  "optional_vars (ast_withitem c v) = v"

primrec alias_name :: "import_alias \<Rightarrow> string" where
  "alias_name (ast_alias n a) = n"

primrec alias_asname :: "import_alias \<Rightarrow> string option" where
  "alias_asname (ast_alias n a) = a"

primrec handler_name :: "excepthandler \<Rightarrow> string option" where
  "handler_name (ast_ExceptHandler l t n b) = n"

primrec handler_type :: "excepthandler \<Rightarrow> expr option" where
  "handler_type (ast_ExceptHandler l t n b) = t"

subsection \<open>Statements\<close>

text \<open>
  \<open>visit_stmt T d n self\<close> is \<open>ASTConverter.visit(n)\<close> for a statement \<open>n\<close> on the converter
  \<open>self\<close>, \<open>visit_stmts\<close> is \<open>visit_list\<close> on statements, and \<open>handler_blocks\<close> is the list
  \<open>[self.as_block(h.body, h.lineno) for h in n.handlers]\<close> of \<open>visit_Try\<close>.  An import node is
  appended to \<open>imports\<close> before \<open>with_line\<close> sets its line on the same object, so the list
  holds the node with its line.
\<close>

function visit_stmt :: "typed_ast \<Rightarrow> nat \<Rightarrow> stmt \<Rightarrow> ASTConverter \<Rightarrow> (node \<times> ASTConverter) res"
  and visit_stmts :: "typed_ast \<Rightarrow> nat \<Rightarrow> stmt list \<Rightarrow> ASTConverter \<Rightarrow> (node list \<times> ASTConverter) res"
  and handler_blocks ::
    "typed_ast \<Rightarrow> nat \<Rightarrow> excepthandler list \<Rightarrow> ASTConverter \<Rightarrow> (node option list \<times> ASTConverter) res"
where
  "visit_stmts T d [] self = Inr ([], self)"
| "visit_stmts T d (e # l) self =
     ebind (visit_stmt T d e self) (\<lambda>(n, self1).
     ebind (visit_stmts T d l self1) (\<lambda>(ns, self2). Inr (n # ns, self2)))"
| "handler_blocks T d [] self = Inr ([], self)"
| "handler_blocks T d (ast_ExceptHandler l t n body # hs) self =
     ebind (as_block (visit_stmts T d) body l self) (\<lambda>(b, self1).
     ebind (handler_blocks T d hs self1) (\<lambda>(bs, self2). Inr (b # bs, self2)))"
| "visit_stmt T d (ast_FunctionDef l nm args body decorator_list returns type_comment) self =
     with_line_s l
       (ebind (transform_args T d args l) (\<lambda>new_args.
        let arg_kinds = map argkind new_args;
            arg_names = map (\<lambda>a. var_name (variable a)) new_args
        in
        ebind (case type_comment of
                 Some c \<Rightarrow> type_comment_signature T d l (in_class self) c new_args
               | None \<Rightarrow> annotation_signature T d l returns new_args)
          (\<lambda>(arg_types, return_type).
        let func_type = make_func_type arg_types arg_kinds arg_names return_type in
        ebind (as_block (visit_stmts T d) body l self) (\<lambda>(func_body, self1).
        if decorator_list \<noteq> [] then
          let var = \<lparr>var_name = nm, is_ready = Assigned False,
                      var_line = Assigned (lineno (decorator_list ! 0))\<rparr>;
              func_line = l + int (length decorator_list)
          in
          case func_body of
            None \<Rightarrow> Inl (AttributeError ''set_line'')
          | Some b \<Rightarrow>
              ebind (visit_list (visit_expr T d) decorator_list) (\<lambda>decorators.
              Inr (new (Decorator
                          (set_line func_line
                             (new (FuncDef nm new_args (Some (set_line func_line b)) func_type
                                     (Assigned True))))
                          decorators var),
                   self1))
        else Inr (new (FuncDef nm new_args func_body func_type Unassigned), self1)))))"
| "visit_stmt T d (ast_AsyncFunctionDef l nm args body decorator_list returns type_comment) self =
     generic_visit ''AsyncFunctionDef''"
| "visit_stmt T d (ast_ClassDef l nm bases keywords body decorator_list) self =
     with_line_s l
       (let self0 = self\<lparr>in_class := True\<rparr> in
        ebind (case find_seq (\<lambda>x. keyword_arg x = Some ''metaclass'') keywords of
                 None \<Rightarrow> Inr None
               | Some metaclass_arg \<Rightarrow>
                   ebind (stringify_name (keyword_value metaclass_arg)) (\<lambda>s. Inr (Some s)))
          (\<lambda>metaclass.
        ebind (visit_stmts T d body self0) (\<lambda>(defs, self1).
        ebind (visit_list (visit_expr T d) bases) (\<lambda>base_exprs.
        ebind (visit_list (visit_expr T d) decorator_list) (\<lambda>decorators.
        Inr (new (ClassDef nm (new (Block (fix_function_overloads defs))) base_exprs metaclass
                    decorators),
             self1\<lparr>in_class := False\<rparr>))))))"
| "visit_stmt T d (ast_Return l v) self =
     with_line_s l
       (ebind (visit_opt (visit_expr T d) v) (\<lambda>r. Inr (new (ReturnStmt r), self)))"
| "visit_stmt T d (ast_Delete l targets) self =
     with_line_s l
       (if length targets > 1
        then ebind (visit_list (visit_expr T d) targets) (\<lambda>ts.
             Inr (new (DelStmt (set_line l (new (TupleExpr ts)))), self))
        else case targets of
               [] \<Rightarrow> Inl (IndexError ''list index out of range'')
             | t # _ \<Rightarrow> ebind (visit_expr T d t) (\<lambda>e. Inr (new (DelStmt e), self)))"
| "visit_stmt T d (ast_Assign l targets v type_comment) self =
     with_line_s l
       (ebind (case type_comment of
                 None \<Rightarrow> Inr None
               | Some c \<Rightarrow> if c = [] then Inr None
                           else ebind (parse_type_comment T d c l) (\<lambda>t. Inr (Some t)))
          (\<lambda>typ.
        ebind (visit_list (visit_expr T d) targets) (\<lambda>lvalues.
        ebind (visit_expr T d v) (\<lambda>rvalue.
        Inr (new (AssignmentStmt lvalues rvalue typ), self)))))"
| "visit_stmt T d (ast_AugAssign l target op v) self =
     with_line_s l
       (ebind (from_operator op) (\<lambda>op_name.
        ebind (visit_expr T d target) (\<lambda>lvalue.
        ebind (visit_expr T d v) (\<lambda>rvalue.
        Inr (new (OperatorAssignmentStmt op_name lvalue rvalue), self)))))"
| "visit_stmt T d (ast_For l target iter body orelse type_comment) self =
     with_line_s l
       (ebind (visit_expr T d target) (\<lambda>index.
        ebind (visit_expr T d iter) (\<lambda>e.
        ebind (as_block (visit_stmts T d) body l self) (\<lambda>(b, self1).
        ebind (as_block (visit_stmts T d) orelse l self1) (\<lambda>(else_body, self2).
        Inr (new (ForStmt index e b else_body), self2))))))"
| "visit_stmt T d (ast_AsyncFor l target iter body orelse) self = generic_visit ''AsyncFor''"
| "visit_stmt T d (ast_While l test body orelse) self =
     with_line_s l
       (ebind (visit_expr T d test) (\<lambda>e.
        ebind (as_block (visit_stmts T d) body l self) (\<lambda>(b, self1).
        ebind (as_block (visit_stmts T d) orelse l self1) (\<lambda>(else_body, self2).
        Inr (new (WhileStmt e b else_body), self2)))))"
| "visit_stmt T d (ast_If l test body orelse) self =
     with_line_s l
       (ebind (visit_expr T d test) (\<lambda>e.
        ebind (as_block (visit_stmts T d) body l self) (\<lambda>(b, self1).
        ebind (as_block (visit_stmts T d) orelse l self1) (\<lambda>(else_body, self2).
        Inr (new (IfStmt [e] [b] else_body), self2)))))"
| "visit_stmt T d (ast_With l items body type_comment) self =
     with_line_s l
       (ebind (visit_list (\<lambda>i. visit_expr T d (context_expr i)) items) (\<lambda>exprs.
        ebind (visit_list (\<lambda>i. visit_opt (visit_expr T d) (optional_vars i)) items) (\<lambda>targets.
        ebind (as_block (visit_stmts T d) body l self) (\<lambda>(b, self1).
        Inr (new (WithStmt exprs targets b), self1)))))"
| "visit_stmt T d (ast_AsyncWith l items body) self = generic_visit ''AsyncWith''"
| "visit_stmt T d (ast_Raise l exc cause) self =
     with_line_s l
       (ebind (visit_opt (visit_expr T d) exc) (\<lambda>e.
        ebind (visit_opt (visit_expr T d) cause) (\<lambda>from_expr.
        Inr (new (RaiseStmt e from_expr), self))))"
| "visit_stmt T d (ast_Try l body handlers orelse finalbody) self =
     with_line_s l
       (let vs = map (\<lambda>h. case handler_name h of
                              Some n \<Rightarrow> Some (new (NameExpr n))
                            | None \<Rightarrow> None) handlers
        in
        ebind (visit_list (\<lambda>h. visit_opt (visit_expr T d) (handler_type h)) handlers) (\<lambda>types.
        ebind (handler_blocks T d handlers self) (\<lambda>(hs, self1).
        ebind (as_block (visit_stmts T d) body l self1) (\<lambda>(b, self2).
        ebind (as_block (visit_stmts T d) orelse l self2) (\<lambda>(else_body, self3).
        ebind (as_block (visit_stmts T d) finalbody l self3) (\<lambda>(finally_body, self4).
        Inr (new (TryStmt b vs types hs else_body finally_body), self4)))))))"
| "visit_stmt T d (ast_Assert l test msg) self =
     with_line_s l (ebind (visit_expr T d test) (\<lambda>e. Inr (new (AssertStmt e), self)))"
| "visit_stmt T d (ast_Import l names) self =
     (let i = set_line l (new (Import (map (\<lambda>a. (alias_name a, alias_asname a)) names)))
      in Inr (i, self\<lparr>imports_acc := imports_acc self @ [i]\<rparr>))"
| "visit_stmt T d (ast_ImportFrom l module names level) self =
     (let i = set_line l
                (if length names = 1 \<and> alias_name (names ! 0) = ''*''
                 then new (ImportAll module level)
                 else new (ImportFrom (case module of None \<Rightarrow> [] | Some m \<Rightarrow> m) level
                             (map (\<lambda>a. (alias_name a, alias_asname a)) names)))
      in Inr (i, self\<lparr>imports_acc := imports_acc self @ [i]\<rparr>))"
| "visit_stmt T d (ast_Global l names) self = with_line_s l (Inr (new (GlobalDecl names), self))"
| "visit_stmt T d (ast_Nonlocal l names) self = with_line_s l (Inr (new (NonlocalDecl names), self))"
| "visit_stmt T d (ast_Expr l v) self =
     with_line_s l (ebind (visit_expr T d v) (\<lambda>e. Inr (new (ExpressionStmt e), self)))"
| "visit_stmt T d (ast_Pass l) self = with_line_s l (Inr (new PassStmt, self))"
| "visit_stmt T d (ast_Break l) self = with_line_s l (Inr (new BreakStmt, self))"
| "visit_stmt T d (ast_Continue l) self = with_line_s l (Inr (new ContinueStmt, self))"
  by pat_completeness auto

termination
  by (relation "measure (\<lambda>x. case x of
      Inl (T, d, n, self) \<Rightarrow> size n
    | Inr (Inl (T, d, l, self)) \<Rightarrow> size_list size l
    | Inr (Inr (T, d, hs, self)) \<Rightarrow> size_list size hs)")
    (auto simp: termination_simp)

subsection \<open>Modules and the entry point\<close>







section \<open>Overload folding as the specification words it\<close>

text \<open>
  A decorated definition \<open>t\<close> continues the run that \<open>s\<close> started when it is a decorated
  definition of the same defining name.
\<close>

definition same_def :: "node \<Rightarrow> node \<Rightarrow> bool" where
  "same_def s t = (is_Decorator t \<and> name t = name s)"

text \<open>
  The statement list is cut into its maximal runs: a decorated definition together with the
  decorated definitions of the same name that follow it directly.  A run of two or more
  becomes one \<open>OverloadedFuncDef\<close> holding the run in order, a run of one stays as it is,
  and every other statement stays where it is.
\<close>

function fold_runs :: "node list \<Rightarrow> node list" where
  "fold_runs [] = []"
| "fold_runs (s # ss) =
     (if is_Decorator s
      then (let run = s # takeWhile (same_def s) ss in
            (if 2 \<le> length run then new (OverloadedFuncDef run) else s)
              # fold_runs (dropWhile (same_def s) ss))
      else s # fold_runs ss)"
  by pat_completeness auto

termination
  by (relation "measure length") (auto simp: less_Suc_eq_le length_dropWhile_le)

text \<open>The statements a node of the folded list stands for.\<close>

definition is_OverloadedFuncDef :: "node \<Rightarrow> bool" where
  "is_OverloadedFuncDef stmt = (case kind_of stmt of OverloadedFuncDef items \<Rightarrow> True | _ \<Rightarrow> False)"

definition overload_items :: "node \<Rightarrow> node list" where
  "overload_items stmt = (case kind_of stmt of OverloadedFuncDef items \<Rightarrow> items | _ \<Rightarrow> [stmt])"

section \<open>The right fold of a boolean chain as the specification words it\<close>

text \<open>\<open>Op(v1, Op(v2, ... Op(v_{n-1}, v_n)))\<close> for the operands \<open>v1 .. vn\<close>.\<close>

definition right_fold :: "string \<Rightarrow> node list \<Rightarrow> node" where
  "right_fold op vs = foldr (\<lambda>v acc. new (OpExpr op v acc)) (butlast vs) (last vs)"

section \<open>Words of the specification about parameter lists\<close>

text \<open>An optional parameter as the list of zero or one parameters it contributes.\<close>

definition optional :: "'a option \<Rightarrow> 'a list" where
  "optional x = (case x of None \<Rightarrow> [] | Some a \<Rightarrow> [a])"

section \<open>Reading a result, and concrete inputs\<close>

text \<open>
  The function definition of a converted \<open>FunctionDef\<close> (the node itself, or the one its
  decorator node wraps) and the signature it carries.
\<close>

definition func_def_of :: "node \<Rightarrow> node" where
  "func_def_of n = (case kind_of n of Decorator f ds v \<Rightarrow> f | _ \<Rightarrow> n)"

definition func_type_of :: "node \<Rightarrow> mtype option" where
  "func_type_of n = (case kind_of (func_def_of n) of FuncDef nm as b t dec \<Rightarrow> t | _ \<Rightarrow> None)"

text \<open>An external parser that rejects every text.\<close>

definition no_parser :: typed_ast where
  "no_parser = \<lparr>parse_exec = (\<lambda>s f. Inl (SyntaxError 1 ''invalid syntax'')),
                 parse_eval = (\<lambda>s. Inl (SyntaxError 1 ''invalid syntax'')),
                 parse_func_type = (\<lambda>s. Inl (SyntaxError 1 ''invalid syntax''))\<rparr>"

text \<open>
  An external parser that knows the texts of the examples below: the module
  \<open>assert x, a @ b\<close>, the module \<open>a @ b\<close>, and the function type comments \<open>(int) -> None\<close>
  and \<open>() -> None\<close>.
\<close>

definition example_parser :: typed_ast where
  "example_parser =
     \<lparr>parse_exec = (\<lambda>s f.
         if s = ''assert x, a @ b''
         then Inr (ast_Module
                [ast_Assert 1 (ast_Name 1 ''x'' ast_Load)
                   (Some (ast_BinOp 1 (ast_Name 1 ''a'' ast_Load) ast_MatMult
                            (ast_Name 1 ''b'' ast_Load)))] [])
         else if s = ''a @ b''
         then Inr (ast_Module
                [ast_Expr 1 (ast_BinOp 1 (ast_Name 1 ''a'' ast_Load) ast_MatMult
                               (ast_Name 1 ''b'' ast_Load))] [])
         else Inl (SyntaxError 1 ''invalid syntax'')),
      parse_eval = (\<lambda>s. Inl (SyntaxError 1 ''invalid syntax'')),
      parse_func_type = (\<lambda>s.
         if s = ''(int) -> None''
         then Inr ([ast_Name 1 ''int'' ast_Load], ast_NameConstant 1 PyNone)
         else if s = ''() -> None''
         then Inr ([], ast_NameConstant 1 PyNone)
         else Inl (SyntaxError 1 ''invalid syntax''))\<rparr>"

text \<open>The decorated definition \<open>@overload def nm(): pass\<close> at line \<open>l\<close>, converted.\<close>

definition decorated :: "string \<Rightarrow> int \<Rightarrow> node" where
  "decorated nm l =
     Node (Assigned l)
       (Decorator
          (Node (Assigned (l + 1))
             (FuncDef nm [] (Some (Node (Assigned (l + 1)) (Block [Node (Assigned (l + 2)) PassStmt])))
                None (Assigned True)))
          [Node (Assigned l) (NameExpr ''overload'')]
          \<lparr>var_name = nm, is_ready = Assigned False, var_line = Assigned l\<rparr>)"

text \<open>The parameter list of \<open>def f(a, b=1, *rest, k, **kw)\<close>.\<close>

definition example_arguments :: arguments where
  "example_arguments =
     ast_arguments [ast_arg 1 ''a'' None, ast_arg 1 ''b'' None] (Some (ast_arg 1 ''rest'' None))
       [ast_arg 1 ''k'' None] [None] (Some (ast_arg 1 ''kw'' None)) [ast_Num 1 (PyInt 1)]"

text \<open>The parameter list of \<open>def f(self, x)\<close> at line \<open>l\<close>.\<close>

definition self_x :: "int \<Rightarrow> arguments" where
  "self_x l = ast_arguments [ast_arg l ''self'' None, ast_arg l ''x'' None] None [] [] None []"

text \<open>
  \<open>def f(self, x): pass\<close> at line \<open>l\<close> with the type comment \<open>c\<close>, and the class
  \<open>class Inner: pass\<close> at line \<open>l\<close>.
\<close>

definition method_f :: "int \<Rightarrow> string \<Rightarrow> stmt" where
  "method_f l c = ast_FunctionDef l ''f'' (self_x l) [ast_Pass (l + 1)] [] None (Some c)"

definition class_Inner :: "int \<Rightarrow> stmt" where
  "class_Inner l = ast_ClassDef l ''Inner'' [] [] [ast_Pass (l + 1)] []"

text \<open>The line number of a statement node.\<close>

primrec stmt_lineno :: "stmt \<Rightarrow> int" where
  "stmt_lineno (ast_FunctionDef l nm args body decs returns tc) = l"
| "stmt_lineno (ast_AsyncFunctionDef l nm args body decs returns tc) = l"
| "stmt_lineno (ast_ClassDef l nm bases keywords body decs) = l"
| "stmt_lineno (ast_Return l v) = l"
| "stmt_lineno (ast_Delete l targets) = l"
| "stmt_lineno (ast_Assign l targets v tc) = l"
| "stmt_lineno (ast_AugAssign l t op v) = l"
| "stmt_lineno (ast_For l t i body orelse tc) = l"
| "stmt_lineno (ast_AsyncFor l t i body orelse) = l"
| "stmt_lineno (ast_While l t body orelse) = l"
| "stmt_lineno (ast_If l t body orelse) = l"
| "stmt_lineno (ast_With l items body tc) = l"
| "stmt_lineno (ast_AsyncWith l items body) = l"
| "stmt_lineno (ast_Raise l exc cause) = l"
| "stmt_lineno (ast_Try l body handlers orelse finalbody) = l"
| "stmt_lineno (ast_Assert l t msg) = l"
| "stmt_lineno (ast_Import l names) = l"
| "stmt_lineno (ast_ImportFrom l m names level) = l"
| "stmt_lineno (ast_Global l names) = l"
| "stmt_lineno (ast_Nonlocal l names) = l"
| "stmt_lineno (ast_Expr l v) = l"
| "stmt_lineno (ast_Pass l) = l"
| "stmt_lineno (ast_Break l) = l"
| "stmt_lineno (ast_Continue l) = l"

section \<open>Properties of the conversion\<close>

subsection \<open>Lines, assert statements and singleton constants\<close>

lemma with_line_Inr [simp]: "with_line l (Inr n) = Inr (set_line l n)"
  by (simp add: with_line_def)

lemma with_line_Inl [simp]: "with_line l (Inl e) = Inl e"
  by (simp add: with_line_def)

lemma with_line_s_Inr [simp]: "with_line_s l (Inr (n, s)) = Inr (set_line l n, s)"
  by (simp add: with_line_s_def)

lemma with_line_s_Inl [simp]: "with_line_s l (Inl e) = Inl e"
  by (simp add: with_line_s_def)

lemma set_line_new [simp]: "set_line l (new k) = Node (Assigned l) k"
  by (simp add: set_line_def new_def)

lemma set_line_Node [simp]: "set_line l (Node a k) = Node (Assigned l) k"
  by (simp add: set_line_def)

text \<open>
  C10.  An assert statement converts to an \<open>AssertStmt\<close> at its line that holds the
  converted test and nothing else.  The message is not visited: the outcome is the same
  as for the statement without message, whatever the message is.
\<close>

theorem visit_Assert_discards_msg:
  "visit_stmt T d (ast_Assert l test msg) self =
     (case visit_expr T d test of
        Inl e \<Rightarrow> Inl e
      | Inr t \<Rightarrow> Inr (Node (Assigned l) (AssertStmt t), self))
   \<and> visit_stmt T d (ast_Assert l test msg) self = visit_stmt T d (ast_Assert l test None) self"
  by (cases "visit_expr T d test") simp_all

theorem visit_Assert_discards_msg_witness:
  "visit_stmt no_parser 0
     (ast_Assert 3 (ast_Name 3 ''x'' ast_Load)
        (Some (ast_BinOp 3 (ast_Name 3 ''a'' ast_Load) ast_MatMult (ast_Name 3 ''b'' ast_Load))))
     \<lparr>in_class = False, imports_acc = []\<rparr>
   = Inr (Node (Assigned 3) (AssertStmt (Node (Assigned 3) (NameExpr ''x''))),
          \<lparr>in_class = False, imports_acc = []\<rparr>)"
  using visit_Assert_discards_msg [of no_parser 0 3 "ast_Name 3 ''x'' ast_Load"
      "Some (ast_BinOp 3 (ast_Name 3 ''a'' ast_Load) ast_MatMult (ast_Name 3 ''b'' ast_Load))"
      "\<lparr>in_class = False, imports_acc = []\<rparr>"]
  by simp

text \<open>
  C9.  \<open>visit_NameConstant\<close> is the one expression handler without \<open>with_line\<close>: the
  \<open>NameExpr\<close> it returns for \<open>None\<close>, \<open>True\<close> or \<open>False\<close> has no line assigned, whatever
  the line of the source node, whereas \<open>visit_Name\<close> returns its \<open>NameExpr\<close> with the line
  of the source node.
\<close>

theorem visit_NameConstant_line_unassigned:
  "visit_expr T d (ast_NameConstant l v) = Inr (Node Unassigned (NameExpr (str_singleton v)))
   \<and> visit_expr T d (ast_Name l ident ctx) = Inr (Node (Assigned l) (NameExpr ident))"
  by (simp add: new_def)

text \<open>
  C4.  \<open>TypeConverter.visit_NameConstant\<close> builds its \<open>UnboundType\<close> without the argument
  \<open>line\<close>: the type object for \<open>None\<close>, \<open>True\<close> or \<open>False\<close> does not carry the line of the
  converter, whereas the type objects of the other handlers (a name, an ellipsis, an empty
  tuple or list) are built with \<open>line=self.line\<close>.
\<close>

theorem TypeConverter_NameConstant_line_unassigned:
  "TypeConverter_visit T d line (ast_NameConstant l v)
     = Inr (UnboundType (str_singleton v) [] Unassigned)
   \<and> TypeConverter_visit T d line (ast_Name l ident ctx) = Inr (UnboundType ident [] (Assigned line))
   \<and> TypeConverter_visit T d line (ast_Ellipsis l) = Inr (EllipsisType (Assigned line))
   \<and> TypeConverter_visit T d line (ast_Tuple l [] ctx) = Inr (TupleType [] True (Assigned line))
   \<and> TypeConverter_visit T d line (ast_List l [] ctx) = Inr (TypeList [] (Assigned line))"
  by simp

subsection \<open>Overload folding\<close>

lemma flush_overload_pending:
  "flush_overload ret (c # cs) =
     ret @ [if 2 \<le> length (c # cs) then new (OverloadedFuncDef (c # cs)) else c]"
  by (cases cs) (simp_all add: flush_overload_def)

lemma flush_overload_empty [simp]: "flush_overload ret [] = ret"
  by (simp add: flush_overload_def)

lemma fold_runs_pending:
  assumes "is_Decorator c" and "list_all (same_def c) cs"
  shows "fold_runs (c # cs @ rest) =
           (if 2 \<le> length (c # cs @ takeWhile (same_def c) rest)
            then new (OverloadedFuncDef (c # cs @ takeWhile (same_def c) rest)) else c)
             # fold_runs (dropWhile (same_def c) rest)"
proof -
  have "takeWhile (same_def c) (cs @ rest) = cs @ takeWhile (same_def c) rest"
    using assms(2) by (simp add: takeWhile_append2 list_all_iff)
  moreover have "dropWhile (same_def c) (cs @ rest) = dropWhile (same_def c) rest"
    using assms(2) by (simp add: dropWhile_append2 list_all_iff)
  ultimately show ?thesis using assms(1) by (simp add: Let_def)
qed

lemma overloads_loop_fold_runs:
  "(is_Decorator c \<longrightarrow> list_all (same_def c) cs \<longrightarrow>
      overloads_loop stmts ret (c # cs) (Some (name c)) = ret @ fold_runs (c # cs @ stmts))
   \<and> overloads_loop stmts ret [] None = ret @ fold_runs stmts"
proof (induction stmts arbitrary: ret c cs)
  case Nil
  show ?case
    using fold_runs_pending [of c cs "[]"] by (auto simp: flush_overload_pending)
next
  case (Cons stmt stmts)
  have pending: "overloads_loop (stmt # stmts) ret (c # cs) (Some (name c))
                   = ret @ fold_runs (c # cs @ stmt # stmts)"
    if dec: "is_Decorator c" and run: "list_all (same_def c) cs"
  proof (cases "same_def c stmt")
    case True
    then have "overloads_loop (stmt # stmts) ret (c # cs) (Some (name c))
                 = overloads_loop stmts ret (c # (cs @ [stmt])) (Some (name c))"
      by (simp add: same_def_def)
    also have "\<dots> = ret @ fold_runs (c # (cs @ [stmt]) @ stmts)"
      using Cons.IH [of c "cs @ [stmt]" ret] dec run True by simp
    finally show ?thesis by simp
  next
    case False
    have rhs: "fold_runs (c # cs @ stmt # stmts) =
                 (if 2 \<le> length (c # cs) then new (OverloadedFuncDef (c # cs)) else c)
                   # fold_runs (stmt # stmts)"
      using fold_runs_pending [OF dec run, of "stmt # stmts"] False by simp
    show ?thesis
    proof (cases "is_Decorator stmt")
      case True
      with False have "overloads_loop (stmt # stmts) ret (c # cs) (Some (name c))
                  = overloads_loop stmts (flush_overload ret (c # cs)) [stmt] (Some (name stmt))"
        by (auto simp: same_def_def)
      also have "\<dots> = flush_overload ret (c # cs) @ fold_runs (stmt # [] @ stmts)"
        using Cons.IH [of stmt "[]" "flush_overload ret (c # cs)"] True by simp
      finally show ?thesis by (simp only: rhs flush_overload_pending) simp
    next
      case nd: False
      then have "overloads_loop (stmt # stmts) ret (c # cs) (Some (name c))
                  = overloads_loop stmts (flush_overload ret (c # cs) @ [stmt]) [] None"
        by simp
      also have "\<dots> = (flush_overload ret (c # cs) @ [stmt]) @ fold_runs stmts"
        using Cons.IH by blast
      finally show ?thesis using nd by (simp only: rhs flush_overload_pending) simp
    qed
  qed
  have empty: "overloads_loop (stmt # stmts) ret [] None = ret @ fold_runs (stmt # stmts)"
  proof (cases "is_Decorator stmt")
    case True
    then have "overloads_loop (stmt # stmts) ret [] None
                 = overloads_loop stmts ret [stmt] (Some (name stmt))"
      by simp
    also have "\<dots> = ret @ fold_runs (stmt # [] @ stmts)"
      using Cons.IH [of stmt "[]" ret] True by simp
    finally show ?thesis by simp
  next
    case False
    then have "overloads_loop (stmt # stmts) ret [] None = overloads_loop stmts (ret @ [stmt]) [] None"
      by simp
    also have "\<dots> = (ret @ [stmt]) @ fold_runs stmts"
      using Cons.IH by blast
    finally show ?thesis using False by simp
  qed
  show ?case using pending empty by blast
qed

lemma fold_runs_items:
  "list_all (\<lambda>s. \<not> is_OverloadedFuncDef s) stmts \<Longrightarrow>
   concat (map overload_items (fold_runs stmts)) = stmts"
proof (induction stmts rule: fold_runs.induct)
  case 1
  show ?case by simp
next
  case (2 s ss)
  have s: "overload_items s = [s]"
    using "2.prems" by (auto simp: overload_items_def is_OverloadedFuncDef_def split: node_kind.splits)
  have rest: "list_all (\<lambda>s. \<not> is_OverloadedFuncDef s) (dropWhile (same_def s) ss)"
    using "2.prems" by (auto simp: list_all_iff dest: set_dropWhileD)
  show ?case
  proof (cases "is_Decorator s")
    case True
    have "concat (map overload_items (fold_runs (dropWhile (same_def s) ss)))
            = dropWhile (same_def s) ss"
      using "2.IH"(1) [OF True refl] rest by simp
    moreover have "overload_items
        (if 2 \<le> length (s # takeWhile (same_def s) ss)
         then new (OverloadedFuncDef (s # takeWhile (same_def s) ss)) else s)
        = s # takeWhile (same_def s) ss"
      using s by (cases "takeWhile (same_def s) ss") (simp_all add: overload_items_def new_def)
    ultimately show ?thesis using True by (simp add: Let_def)
  next
    case False
    then show ?thesis using "2.IH"(2) "2.prems" s by simp
  qed
qed

text \<open>
  C1.  The loop of \<open>fix_function_overloads\<close> computes the folding of maximal runs: each run
  of two or more consecutive decorated definitions of one name becomes one
  \<open>OverloadedFuncDef\<close> with the run in its order, a run of one and every other statement
  are passed on as they are.  Replacing each combined node by its items gives the
  statement list back, so nothing is lost or reordered.
\<close>

theorem fix_function_overloads_folds_runs:
  "fix_function_overloads stmts = fold_runs stmts
   \<and> (list_all (\<lambda>s. \<not> is_OverloadedFuncDef s) stmts \<longrightarrow>
        concat (map overload_items (fix_function_overloads stmts)) = stmts)"
proof -
  have eq: "fix_function_overloads stmts = fold_runs stmts"
    using overloads_loop_fold_runs [THEN conjunct2, of stmts "[]"]
    by (simp add: fix_function_overloads_def)
  show ?thesis using eq fold_runs_items by simp
qed

subsection \<open>Boolean chains\<close>

lemma mapM_length: "mapM f xs = Inr ys \<Longrightarrow> length ys = length xs"
  by (induction xs arbitrary: ys) (auto simp: ebind_def split: sum.splits)

lemma visit_list_length: "visit_list f xs = Inr ys \<Longrightarrow> length ys = length xs"
  unfolding visit_list_def by (rule mapM_length)

lemma group_right_fold: "2 \<le> length vals \<Longrightarrow> group op vals = Inr (right_fold op vals)"
proof (induction vals)
  case Nil
  then show ?case by simp
next
  case (Cons v rest)
  show ?case
  proof (cases "length (v # rest) = 2")
    case True
    then obtain w where "rest = [w]"
      by (cases rest) auto
    then show ?thesis
      by (simp add: group.simps [of op "[v, w]"] right_fold_def)
  next
    case False
    with Cons.prems have "2 \<le> length rest" by simp
    then have "group op rest = Inr (right_fold op rest)" by (rule Cons.IH)
    moreover have "rest \<noteq> []" using \<open>2 \<le> length rest\<close> by auto
    ultimately show ?thesis
      using False by (simp add: group.simps [of op "v # rest"] right_fold_def)
  qed
qed

lemma node_not_own_operand: "a \<noteq> Node y (OpExpr op a b)"
proof
  assume "a = Node y (OpExpr op a b)"
  then have "size a = size (Node y (OpExpr op a b))" by simp
  then show False by simp
qed

text \<open>
  C3.  A boolean operation over two or more operands with the operator \<open>and\<close> or \<open>or\<close>
  converts to the right fold of its converted operands (the outermost node carrying the
  line of the expression); for three operands this is \<open>Op(a, Op(b, c))\<close> and never
  \<open>Op(Op(a, b), c)\<close>.
\<close>

theorem visit_BoolOp_right_fold:
  assumes "boolop_name op = Some op_name"
    and "2 \<le> length values"
    and "visit_list (visit_expr T d) values = Inr vals"
  shows "visit_expr T d (ast_BoolOp l op values) = Inr (set_line l (right_fold op_name vals))
    \<and> (vals = [a, b, c] \<longrightarrow>
         visit_expr T d (ast_BoolOp l op values)
           = Inr (Node (Assigned l) (OpExpr op_name a (Node Unassigned (OpExpr op_name b c))))
         \<and> visit_expr T d (ast_BoolOp l op values)
           \<noteq> Inr (Node x (OpExpr op_name (Node y (OpExpr op_name a b)) c)))"
proof -
  have "2 \<le> length vals"
    using assms(2,3) by (simp add: visit_list_length)
  then have "group op_name vals = Inr (right_fold op_name vals)"
    by (rule group_right_fold)
  then have main: "visit_expr T d (ast_BoolOp l op values) = Inr (set_line l (right_fold op_name vals))"
    using assms by simp
  show ?thesis
    using main by (simp add: right_fold_def new_def node_not_own_operand)
qed

theorem visit_BoolOp_right_fold_witness:
  "visit_expr no_parser 0
     (ast_BoolOp 1 ast_And
        [ast_Name 1 ''a'' ast_Load, ast_Name 1 ''b'' ast_Load, ast_Name 1 ''c'' ast_Load])
   = Inr (Node (Assigned 1)
            (OpExpr ''and'' (Node (Assigned 1) (NameExpr ''a''))
               (Node Unassigned
                  (OpExpr ''and'' (Node (Assigned 1) (NameExpr ''b''))
                     (Node (Assigned 1) (NameExpr ''c''))))))
   \<and> visit_expr no_parser 0
     (ast_BoolOp 1 ast_And
        [ast_Name 1 ''a'' ast_Load, ast_Name 1 ''b'' ast_Load, ast_Name 1 ''c'' ast_Load])
   \<noteq> Inr (Node (Assigned 1)
            (OpExpr ''and''
               (Node Unassigned
                  (OpExpr ''and'' (Node (Assigned 1) (NameExpr ''a''))
                     (Node (Assigned 1) (NameExpr ''b''))))
               (Node (Assigned 1) (NameExpr ''c''))))"
  using visit_BoolOp_right_fold [of ast_And "''and''"
      "[ast_Name 1 ''a'' ast_Load, ast_Name 1 ''b'' ast_Load, ast_Name 1 ''c'' ast_Load]"
      no_parser 0
      "[Node (Assigned 1) (NameExpr ''a''), Node (Assigned 1) (NameExpr ''b''),
        Node (Assigned 1) (NameExpr ''c'')]"
      1 "Node (Assigned 1) (NameExpr ''a'')" "Node (Assigned 1) (NameExpr ''b'')"
      "Node (Assigned 1) (NameExpr ''c'')" "Assigned 1" Unassigned]
  by (simp add: visit_list_def right_fold_def new_def)

subsection \<open>Parameter lists\<close>

lemma make_argument_Inr:
  "make_argument T d line a r knd = Inr x \<Longrightarrow>
   argkind x = knd \<and> var_name (variable x) = arg_arg a \<and> r = Inr (initializer x)"
  by (auto simp: make_argument_def ebind_def Var_def split: sum.splits)

lemma make_arguments_plain:
  "mapM (\<lambda>a. make_argument T d line a (Inr None) knd) as = Inr xs \<Longrightarrow>
   map argkind xs = replicate (length as) knd
   \<and> map (\<lambda>x. var_name (variable x)) xs = map arg_arg as
   \<and> map initializer xs = replicate (length as) None"
proof (induction as arbitrary: xs)
  case Nil
  then show ?case by simp
next
  case (Cons a as)
  from Cons.prems obtain y ys where
    y: "make_argument T d line a (Inr None) knd = Inr y"
    and ys: "mapM (\<lambda>a. make_argument T d line a (Inr None) knd) as = Inr ys"
    and xs: "xs = y # ys"
    by (auto simp: ebind_def split: sum.splits)
  show ?case
    using make_argument_Inr [OF y] Cons.IH [OF ys] xs by simp
qed

lemma make_arguments_defaults:
  "length as = length dfs \<Longrightarrow>
   mapM (\<lambda>(a, r). make_argument T d line a r knd) (zip as (map f dfs)) = Inr xs \<Longrightarrow>
   map argkind xs = replicate (length dfs) knd
   \<and> map (\<lambda>x. var_name (variable x)) xs = map arg_arg as
   \<and> mapM f dfs = Inr (map initializer xs)"
proof (induction as dfs arbitrary: xs rule: list_induct2)
  case Nil
  then show ?case by simp
next
  case (Cons a as df dfs)
  from Cons.prems obtain y ys where
    y: "make_argument T d line a (f df) knd = Inr y"
    and ys: "mapM (\<lambda>(a, r). make_argument T d line a r knd) (zip as (map f dfs)) = Inr ys"
    and xs: "xs = y # ys"
    by (auto simp: ebind_def split: sum.splits)
  show ?case
    using make_argument_Inr [OF y] Cons.IH [OF ys] xs by simp
qed

lemma mapM_visit_Some:
  "mapM (\<lambda>df. visit_opt v (Some df)) dfs = Inr ys \<Longrightarrow>
   \<exists>ds. mapM v dfs = Inr ds \<and> ys = map Some ds"
proof (induction dfs arbitrary: ys)
  case Nil
  then show ?case by simp
next
  case (Cons df dfs)
  from Cons.prems obtain z zs where
    z: "visit_opt v (Some df) = Inr z"
    and zs: "mapM (\<lambda>df. visit_opt v (Some df)) dfs = Inr zs"
    and ys: "ys = z # zs"
    by (auto simp: ebind_def split: sum.splits)
  from z obtain n where n: "v df = Inr n" "z = Some n"
    by (auto simp: visit_opt_def ebind_def split: sum.splits)
  from Cons.IH [OF zs] obtain ds where "mapM v dfs = Inr ds" "zs = map Some ds"
    by blast
  then show ?case using n ys by simp
qed

lemma optional_argument:
  "(case x of None \<Rightarrow> Inr []
    | Some a \<Rightarrow> ebind (make_argument T d line a (Inr None) knd) (\<lambda>x. Inr [x])) = Inr xs \<Longrightarrow>
   map argkind xs = map (\<lambda>_. knd) (optional x)
   \<and> map (\<lambda>x. var_name (variable x)) xs = map arg_arg (optional x)
   \<and> map initializer xs = map (\<lambda>_. None) (optional x)"
  by (cases x) (auto simp: optional_def ebind_def split: sum.splits dest: make_argument_Inr)

text \<open>
  C2.  For a parameter list whose default lists are no longer than the parameter lists
  they belong to, the descriptors that \<open>transform_args\<close> returns are, in this order: the
  positional parameters without default (as many as there are positional parameters
  minus positional defaults), the remaining positional parameters with their defaults in
  order, the variadic positional parameter if present, the keyword-only parameters
  without default (keyword-only parameters minus keyword-only defaults), the remaining
  keyword-only parameters with their defaults in order, and the variadic keyword
  parameter if present; their number is the number of parameters.
\<close>

theorem transform_args_descriptor_order:
  assumes "length defaults \<le> length args"
    and "length kw_defaults \<le> length kwonlyargs"
    and "transform_args T d (ast_arguments args vararg kwonlyargs kw_defaults kwarg defaults) line
           = Inr new_args"
  shows "map argkind new_args =
           replicate (length args - length defaults) ARG_POS
           @ replicate (length defaults) ARG_OPT
           @ map (\<lambda>_. ARG_STAR) (optional vararg)
           @ replicate (length kwonlyargs - length kw_defaults) ARG_NAMED
           @ replicate (length kw_defaults) ARG_NAMED
           @ map (\<lambda>_. ARG_STAR2) (optional kwarg)
       \<and> map (\<lambda>x. var_name (variable x)) new_args =
           map arg_arg (args @ optional vararg @ kwonlyargs @ optional kwarg)
       \<and> (\<exists>ds kds.
             visit_list (visit_expr T d) defaults = Inr ds
           \<and> visit_list (visit_opt (visit_expr T d)) kw_defaults = Inr kds
           \<and> map initializer new_args =
               replicate (length args - length defaults) None
               @ map Some ds
               @ map (\<lambda>_. None) (optional vararg)
               @ replicate (length kwonlyargs - length kw_defaults) None
               @ kds
               @ map (\<lambda>_. None) (optional kwarg))
       \<and> length new_args =
           length args + length (optional vararg) + length kwonlyargs + length (optional kwarg)"
proof -
  define n where "n = length args - length defaults"
  define m where "m = length kwonlyargs - length kw_defaults"
  have take_n: "py_take (int (length args) - int (length defaults)) args = take n args"
    and drop_n: "py_drop (int (length args) - int (length defaults)) args = drop n args"
    using assms(1) by (simp_all add: py_take_def py_drop_def n_def nat_diff_distrib')
  have take_m: "py_take (int (length kwonlyargs) - int (length kw_defaults)) kwonlyargs = take m kwonlyargs"
    and drop_m: "py_drop (int (length kwonlyargs) - int (length kw_defaults)) kwonlyargs = drop m kwonlyargs"
    using assms(2) by (simp_all add: py_take_def py_drop_def m_def nat_diff_distrib')
  from assms(3) obtain positional opt star kw_required kw_optional star2 where
    p1: "mapM (\<lambda>a. make_argument T d line a (Inr None) ARG_POS) (take n args) = Inr positional"
    and p2: "mapM (\<lambda>(a, r). make_argument T d line a r ARG_OPT)
               (zip (drop n args) (map (\<lambda>df. visit_opt (visit_expr T d) (Some df)) defaults))
             = Inr opt"
    and p3: "(case vararg of None \<Rightarrow> Inr []
              | Some a \<Rightarrow> ebind (make_argument T d line a (Inr None) ARG_STAR) (\<lambda>x. Inr [x]))
             = Inr star"
    and p4: "mapM (\<lambda>a. make_argument T d line a (Inr None) ARG_NAMED) (take m kwonlyargs)
             = Inr kw_required"
    and p5: "mapM (\<lambda>(a, r). make_argument T d line a r ARG_NAMED)
               (zip (drop m kwonlyargs) (map (\<lambda>df. visit_opt (visit_expr T d) df) kw_defaults))
             = Inr kw_optional"
    and p6: "(case kwarg of None \<Rightarrow> Inr []
              | Some a \<Rightarrow> ebind (make_argument T d line a (Inr None) ARG_STAR2) (\<lambda>x. Inr [x]))
             = Inr star2"
    and all: "new_args = positional @ opt @ star @ kw_required @ kw_optional @ star2"
    unfolding transform_args.simps Let_def take_n drop_n take_m drop_m
    by (auto simp: ebind_def split: sum.splits)
  have len_n: "length (take n args) = n" and len_dn: "length (drop n args) = length defaults"
    using assms(1) by (simp_all add: n_def)
  have len_m: "length (take m kwonlyargs) = m"
    and len_dm: "length (drop m kwonlyargs) = length kw_defaults"
    using assms(2) by (simp_all add: m_def)
  note r1 = make_arguments_plain [OF p1, unfolded len_n]
  note r2 = make_arguments_defaults [OF len_dn p2]
  note r3 = optional_argument [OF p3]
  note r4 = make_arguments_plain [OF p4, unfolded len_m]
  note r5 = make_arguments_defaults [OF len_dm p5]
  note r6 = optional_argument [OF p6]
  from r2 obtain ds where ds: "mapM (visit_expr T d) defaults = Inr ds"
    "map initializer opt = map Some ds"
    using mapM_visit_Some [of "visit_expr T d" defaults "map initializer opt"] by auto
  have kinds: "map argkind new_args =
           replicate n ARG_POS @ replicate (length defaults) ARG_OPT
           @ map (\<lambda>_. ARG_STAR) (optional vararg)
           @ replicate m ARG_NAMED @ replicate (length kw_defaults) ARG_NAMED
           @ map (\<lambda>_. ARG_STAR2) (optional kwarg)"
    using r1 r2 r3 r4 r5 r6 by (simp add: all)
  have "map (\<lambda>x. var_name (variable x)) new_args =
          map arg_arg (take n args) @ map arg_arg (drop n args) @ map arg_arg (optional vararg)
          @ map arg_arg (take m kwonlyargs) @ map arg_arg (drop m kwonlyargs)
          @ map arg_arg (optional kwarg)"
    using r1 r2 r3 r4 r5 r6 by (simp add: all)
  also have "\<dots> = map arg_arg (args @ optional vararg @ kwonlyargs @ optional kwarg)"
    by (simp add: map_append [symmetric] del: map_append)
       (simp add: append_assoc [symmetric] del: append_assoc)
  finally have names: "map (\<lambda>x. var_name (variable x)) new_args =
          map arg_arg (args @ optional vararg @ kwonlyargs @ optional kwarg)" .
  have inits: "map initializer new_args =
               replicate n None @ map Some ds @ map (\<lambda>_. None) (optional vararg)
               @ replicate m None @ map initializer kw_optional
               @ map (\<lambda>_. None) (optional kwarg)"
    using r1 ds r3 r4 r6 by (simp add: all)
  have kds: "visit_list (visit_opt (visit_expr T d)) kw_defaults = Inr (map initializer kw_optional)"
    using r5 by (simp add: visit_list_def)
  have "length new_args = length (map argkind new_args)" by simp
  also have "\<dots> = n + length defaults + length (optional vararg) + m + length kw_defaults
                     + length (optional kwarg)"
    unfolding kinds by simp
  also have "\<dots> = length args + length (optional vararg) + length kwonlyargs
                     + length (optional kwarg)"
    using assms(1,2) by (simp add: n_def m_def)
  finally have len: "length new_args =
      length args + length (optional vararg) + length kwonlyargs + length (optional kwarg)" .
  show ?thesis
    using kinds names inits kds ds(1) len
    unfolding n_def m_def visit_list_def by blast
qed

subsection \<open>The two orders on concrete inputs\<close>

theorem fix_function_overloads_folds_runs_witness:
  "fix_function_overloads
     [decorated ''f'' 1, decorated ''f'' 4, Node (Assigned 7) PassStmt, decorated ''g'' 8,
      decorated ''f'' 11]
   = [Node Unassigned (OverloadedFuncDef [decorated ''f'' 1, decorated ''f'' 4]),
      Node (Assigned 7) PassStmt, decorated ''g'' 8, decorated ''f'' 11]
   \<and> concat (map overload_items
        (fix_function_overloads
           [decorated ''f'' 1, decorated ''f'' 4, Node (Assigned 7) PassStmt, decorated ''g'' 8,
            decorated ''f'' 11]))
     = [decorated ''f'' 1, decorated ''f'' 4, Node (Assigned 7) PassStmt, decorated ''g'' 8,
        decorated ''f'' 11]"
  using fix_function_overloads_folds_runs
    [of "[decorated ''f'' 1, decorated ''f'' 4, Node (Assigned 7) PassStmt, decorated ''g'' 8,
          decorated ''f'' 11]"]
  by (simp add: decorated_def is_Decorator_def name_def same_def_def is_OverloadedFuncDef_def
      overload_items_def
      new_def)

theorem transform_args_descriptor_order_witness:
  "transform_args no_parser 0 example_arguments 1 =
     Inr [Argument (Var ''a'') None None ARG_POS,
          Argument (Var ''b'') None (Some (Node (Assigned 1) (IntExpr 1))) ARG_OPT,
          Argument (Var ''rest'') None None ARG_STAR,
          Argument (Var ''k'') None None ARG_NAMED,
          Argument (Var ''kw'') None None ARG_STAR2]
   \<and> map argkind
       [Argument (Var ''a'') None None ARG_POS,
        Argument (Var ''b'') None (Some (Node (Assigned 1) (IntExpr 1))) ARG_OPT,
        Argument (Var ''rest'') None None ARG_STAR,
        Argument (Var ''k'') None None ARG_NAMED,
        Argument (Var ''kw'') None None ARG_STAR2]
     = [ARG_POS, ARG_OPT, ARG_STAR, ARG_NAMED, ARG_STAR2]"
proof -
  have run: "transform_args no_parser 0
      (ast_arguments [ast_arg 1 ''a'' None, ast_arg 1 ''b'' None] (Some (ast_arg 1 ''rest'' None))
         [ast_arg 1 ''k'' None] [None] (Some (ast_arg 1 ''kw'' None)) [ast_Num 1 (PyInt 1)]) 1 =
     Inr [Argument (Var ''a'') None None ARG_POS,
          Argument (Var ''b'') None (Some (Node (Assigned 1) (IntExpr 1))) ARG_OPT,
          Argument (Var ''rest'') None None ARG_STAR,
          Argument (Var ''k'') None None ARG_NAMED,
          Argument (Var ''kw'') None None ARG_STAR2]"
    by (simp add: py_take_def py_drop_def make_argument_def TypeConverter_visit_opt_def
        visit_opt_def)
  have le1: "length [ast_Num 1 (PyInt 1)] \<le> length [ast_arg 1 ''a'' None, ast_arg 1 ''b'' None]"
    by simp
  have le2: "length [None :: expr option] \<le> length [ast_arg 1 ''k'' None]"
    by simp
  show ?thesis
    using transform_args_descriptor_order [OF le1 le2 run] run
    by (simp add: example_arguments_def)
qed

subsection \<open>Function definitions\<close>

lemma as_block_Some:
  "as_block v stmts l s = Inr (Some b, s') \<Longrightarrow> \<exists>ns. b = Node (Assigned l) (Block ns)"
  by (auto simp: as_block_def ebind_def split: if_splits sum.splits)

lemma visit_FunctionDef_Inr:
  assumes "visit_stmt T d (ast_FunctionDef l nm args body decorator_list returns type_comment) self
             = Inr (n, self')"
  shows "\<exists>new_args arg_types return_type func_body.
      transform_args T d args l = Inr new_args
    \<and> (case type_comment of
          Some c \<Rightarrow> type_comment_signature T d l (in_class self) c new_args
        | None \<Rightarrow> annotation_signature T d l returns new_args) = Inr (arg_types, return_type)
    \<and> as_block (visit_stmts T d) body l self = Inr (func_body, self')
    \<and> (if decorator_list \<noteq> [] then
          \<exists>b decorators.
              func_body = Some b
            \<and> visit_list (visit_expr T d) decorator_list = Inr decorators
            \<and> n = Node (Assigned l)
                  (Decorator
                     (Node (Assigned (l + int (length decorator_list)))
                        (FuncDef nm new_args
                           (Some (set_line (l + int (length decorator_list)) b))
                           (make_func_type arg_types (map argkind new_args)
                              (map (\<lambda>a. var_name (variable a)) new_args) return_type)
                           (Assigned True)))
                     decorators
                     \<lparr>var_name = nm, is_ready = Assigned False,
                        var_line = Assigned (lineno (decorator_list ! 0))\<rparr>)
        else n = Node (Assigned l)
                  (FuncDef nm new_args func_body
                     (make_func_type arg_types (map argkind new_args)
                        (map (\<lambda>a. var_name (variable a)) new_args) return_type)
                     Unassigned))"
proof -
  from assms obtain new_args where a: "transform_args T d args l = Inr new_args"
    by (cases "transform_args T d args l") (simp_all add: with_line_s_def)
  let ?sig = "case type_comment of
          Some c \<Rightarrow> type_comment_signature T d l (in_class self) c new_args
        | None \<Rightarrow> annotation_signature T d l returns new_args"
  from assms a obtain arg_types return_type where s: "?sig = Inr (arg_types, return_type)"
    by (cases ?sig) (auto simp: with_line_s_def Let_def)
  from assms a s obtain func_body self1 where
    b: "as_block (visit_stmts T d) body l self = Inr (func_body, self1)"
    by (cases "as_block (visit_stmts T d) body l self") (auto simp: with_line_s_def Let_def)
  show ?thesis
  proof (cases "decorator_list = []")
    case True
    with assms a s b show ?thesis
      by (simp add: Let_def new_def)
  next
    case False
    with assms a s b obtain blk where blk: "func_body = Some blk"
      by (cases func_body) (auto simp: with_line_s_def Let_def)
    from False assms a s b blk obtain decorators where
      ds: "visit_list (visit_expr T d) decorator_list = Inr decorators"
      by (cases "visit_list (visit_expr T d) decorator_list") (auto simp: with_line_s_def Let_def)
    from False assms a s b blk ds show ?thesis
      by (simp add: Let_def new_def)
  qed
qed

text \<open>
  C7.  A function definition at line \<open>L\<close> with \<open>k \<ge> 1\<close> decorators converts to a decorator
  node that wraps the function definition with line \<open>L + k\<close> and with its body block at
  that same line \<open>L + k\<close>, and that carries the converted decorator expressions and a
  variable of the function's name whose \<open>is_ready\<close> is \<open>False\<close>.
\<close>

theorem visit_FunctionDef_decorated:
  assumes "decorator_list \<noteq> []"
    and "visit_stmt T d (ast_FunctionDef l nm args body decorator_list returns type_comment) self
           = Inr (n, self')"
  shows "\<exists>new_args stmts func_type decorators.
      n = Node (Assigned l)
            (Decorator
               (Node (Assigned (l + int (length decorator_list)))
                  (FuncDef nm new_args
                     (Some (Node (Assigned (l + int (length decorator_list))) (Block stmts)))
                     func_type (Assigned True)))
               decorators
               \<lparr>var_name = nm, is_ready = Assigned False,
                  var_line = Assigned (lineno (decorator_list ! 0))\<rparr>)
    \<and> visit_list (visit_expr T d) decorator_list = Inr decorators
    \<and> transform_args T d args l = Inr new_args"
proof -
  from visit_FunctionDef_Inr [OF assms(2)] assms(1)
  obtain new_args arg_types return_type b decorators where
    a: "transform_args T d args l = Inr new_args"
    and b: "as_block (visit_stmts T d) body l self = Inr (Some b, self')"
    and ds: "visit_list (visit_expr T d) decorator_list = Inr decorators"
    and n: "n = Node (Assigned l)
                  (Decorator
                     (Node (Assigned (l + int (length decorator_list)))
                        (FuncDef nm new_args
                           (Some (set_line (l + int (length decorator_list)) b))
                           (make_func_type arg_types (map argkind new_args)
                              (map (\<lambda>a. var_name (variable a)) new_args) return_type)
                           (Assigned True)))
                     decorators
                     \<lparr>var_name = nm, is_ready = Assigned False,
                        var_line = Assigned (lineno (decorator_list ! 0))\<rparr>)"
    by auto
  from as_block_Some [OF b] obtain stmts where "b = Node (Assigned l) (Block stmts)" ..
  with n a ds show ?thesis by simp
qed

theorem visit_FunctionDef_decorated_witness:
  "visit_stmt no_parser 0
     (ast_FunctionDef 3 ''f'' (ast_arguments [] None [] [] None []) [ast_Pass 6]
        [ast_Name 3 ''first'' ast_Load, ast_Name 4 ''second'' ast_Load] None None)
     \<lparr>in_class = False, imports_acc = []\<rparr>
   = Inr (Node (Assigned 3)
            (Decorator
               (Node (Assigned 5)
                  (FuncDef ''f'' []
                     (Some (Node (Assigned 5) (Block [Node (Assigned 6) PassStmt])))
                     None (Assigned True)))
               [Node (Assigned 3) (NameExpr ''first''), Node (Assigned 4) (NameExpr ''second'')]
               \<lparr>var_name = ''f'', is_ready = Assigned False, var_line = Assigned 3\<rparr>),
          \<lparr>in_class = False, imports_acc = []\<rparr>)"
proof -
  have run: "visit_stmt no_parser 0
     (ast_FunctionDef 3 ''f'' (ast_arguments [] None [] [] None []) [ast_Pass 6]
        [ast_Name 3 ''first'' ast_Load, ast_Name 4 ''second'' ast_Load] None None)
     \<lparr>in_class = False, imports_acc = []\<rparr>
   = Inr (Node (Assigned 3)
            (Decorator
               (Node (Assigned 5)
                  (FuncDef ''f'' []
                     (Some (Node (Assigned 5) (Block [Node (Assigned 6) PassStmt])))
                     None (Assigned True)))
               [Node (Assigned 3) (NameExpr ''first''), Node (Assigned 4) (NameExpr ''second'')]
               \<lparr>var_name = ''f'', is_ready = Assigned False, var_line = Assigned 3\<rparr>),
          \<lparr>in_class = False, imports_acc = []\<rparr>)"
    by (simp add: py_take_def py_drop_def annotation_signature_def TypeConverter_visit_opt_def
        make_func_type_def as_block_def visit_list_def new_def Let_def)
  have ne: "[ast_Name 3 ''first'' ast_Load, ast_Name 4 ''second'' ast_Load] \<noteq> []"
    by simp
  show ?thesis
    using visit_FunctionDef_decorated [OF ne run] run by simp
qed

text \<open>
  C6 (as amended).  For a function definition whose signature comes from a type comment,
  \<open>AnyType()\<close> is put in front of the argument types of the comment exactly when the flag
  \<open>in_class\<close> of the converter is set and the comment lists fewer argument types than the
  function has parameters; with the flag clear, or with at least as many types as
  parameters, the argument types are those of the comment.
\<close>

theorem visit_FunctionDef_implicit_self:
  assumes "parse_func_type T c = Inr (argtypes, rets)"
    and "TypeConverter_visit_list T d l argtypes = Inr converted"
    and "transform_args T d args l = Inr new_args"
    and "visit_stmt T d (ast_FunctionDef l nm args body decorator_list returns (Some c)) self
           = Inr (n, self')"
  shows "\<exists>return_type.
      func_type_of n =
        Some (CallableType
                (if in_class self \<and> length converted < length new_args
                 then AnyType # converted else converted)
                (map argkind new_args) (map (\<lambda>a. var_name (variable a)) new_args) return_type)"
proof -
  from visit_FunctionDef_Inr [OF assms(4)] assms(3)
  obtain arg_types return_type where
    s: "type_comment_signature T d l (in_class self) c new_args = Inr (arg_types, return_type)"
    and ft: "func_type_of n = make_func_type arg_types (map argkind new_args)
                        (map (\<lambda>a. var_name (variable a)) new_args) return_type"
    by (auto simp: func_type_of_def func_def_of_def split: if_splits)
  from s assms(1,2) obtain rt where
    rt: "return_type = Some rt"
    and ats: "arg_types = (if in_class self \<and> length converted < length new_args
                           then Some AnyType # map Some converted else map Some converted)"
    by (auto simp: type_comment_signature_def ebind_def Let_def split: sum.splits)
  have "map or_any arg_types = (if in_class self \<and> length converted < length new_args
                 then AnyType # converted else converted)"
    unfolding ats by (simp add: or_any_def comp_def)
  then show ?thesis
    unfolding ft by (simp add: make_func_type_def rt or_any_def)
qed

subsection \<open>Type comments inside and outside a class\<close>

lemma var_name_Var [simp]: "var_name (Var n) = n"
  by (simp add: Var_def)

lemma example_signature:
  "type_comment_signature example_parser 0 4 ic ''(int) -> None''
     [Argument (Var ''self'') None None ARG_POS, Argument (Var ''x'') None None ARG_POS]
   = Inr (if ic then [Some AnyType, Some (UnboundType ''int'' [] (Assigned 4))]
          else [Some (UnboundType ''int'' [] (Assigned 4))],
          Some (UnboundType ''None'' [] Unassigned))"
  by (simp add: type_comment_signature_def example_parser_def)

lemma example_self_x:
  "transform_args T d (self_x l) l
   = Inr [Argument (Var ''self'') None None ARG_POS, Argument (Var ''x'') None None ARG_POS]"
  by (simp add: self_x_def py_take_def py_drop_def make_argument_def TypeConverter_visit_opt_def)

lemma example_method_f:
  "visit_stmt example_parser 0 (method_f 4 ''(int) -> None'') \<lparr>in_class = ic, imports_acc = []\<rparr>
   = Inr (Node (Assigned 4)
            (FuncDef ''f''
               [Argument (Var ''self'') None None ARG_POS, Argument (Var ''x'') None None ARG_POS]
               (Some (Node (Assigned 4) (Block [Node (Assigned 5) PassStmt])))
               (Some (CallableType
                        (if ic then [AnyType, UnboundType ''int'' [] (Assigned 4)]
                         else [UnboundType ''int'' [] (Assigned 4)])
                        [ARG_POS, ARG_POS] [''self'', ''x''] (UnboundType ''None'' [] Unassigned)))
               Unassigned),
          \<lparr>in_class = ic, imports_acc = []\<rparr>)"
  by (simp add: method_f_def example_self_x example_signature make_func_type_def as_block_def
      new_def or_any_def)

theorem visit_FunctionDef_implicit_self_witness:
  "func_type_of
     (Node (Assigned 4)
        (FuncDef ''f''
           [Argument (Var ''self'') None None ARG_POS, Argument (Var ''x'') None None ARG_POS]
           (Some (Node (Assigned 4) (Block [Node (Assigned 5) PassStmt])))
           (Some (CallableType [AnyType, UnboundType ''int'' [] (Assigned 4)]
                    [ARG_POS, ARG_POS] [''self'', ''x''] (UnboundType ''None'' [] Unassigned)))
           Unassigned))
   = Some (CallableType [AnyType, UnboundType ''int'' [] (Assigned 4)]
             [ARG_POS, ARG_POS] [''self'', ''x''] (UnboundType ''None'' [] Unassigned))
   \<and> visit_stmt example_parser 0 (method_f 4 ''(int) -> None'')
       \<lparr>in_class = True, imports_acc = []\<rparr>
     = Inr (Node (Assigned 4)
        (FuncDef ''f''
           [Argument (Var ''self'') None None ARG_POS, Argument (Var ''x'') None None ARG_POS]
           (Some (Node (Assigned 4) (Block [Node (Assigned 5) PassStmt])))
           (Some (CallableType [AnyType, UnboundType ''int'' [] (Assigned 4)]
                    [ARG_POS, ARG_POS] [''self'', ''x''] (UnboundType ''None'' [] Unassigned)))
           Unassigned),
        \<lparr>in_class = True, imports_acc = []\<rparr>)"
proof -
  have p: "parse_func_type example_parser ''(int) -> None''
             = Inr ([ast_Name 1 ''int'' ast_Load], ast_NameConstant 1 PyNone)"
    by (simp add: example_parser_def)
  have c: "TypeConverter_visit_list example_parser 0 4 [ast_Name 1 ''int'' ast_Load]
             = Inr [UnboundType ''int'' [] (Assigned 4)]"
    by simp
  note a = example_self_x [of example_parser 0 4]
  note run = example_method_f [of True, unfolded method_f_def if_True]
  show ?thesis
    using visit_FunctionDef_implicit_self [OF p c a run] example_method_f [of True]
    by (simp add: func_type_of_def func_def_of_def)
qed

text \<open>
  Inside a class, \<open>def f(self, x)\<close> with the type comment \<open>() -> None\<close>, which lists two types
  fewer than there are parameters, still gets the implicit first type.
\<close>

theorem visit_FunctionDef_implicit_self_counterexample:
  "visit_stmt example_parser 0 (method_f 4 ''() -> None'') \<lparr>in_class = True, imports_acc = []\<rparr>
   = Inr (Node (Assigned 4)
            (FuncDef ''f''
               [Argument (Var ''self'') None None ARG_POS, Argument (Var ''x'') None None ARG_POS]
               (Some (Node (Assigned 4) (Block [Node (Assigned 5) PassStmt])))
               (Some (CallableType [AnyType] [ARG_POS, ARG_POS] [''self'', ''x'']
                        (UnboundType ''None'' [] Unassigned)))
               Unassigned),
          \<lparr>in_class = True, imports_acc = []\<rparr>)
   \<and> parse_func_type example_parser ''() -> None'' = Inr ([], ast_NameConstant 1 PyNone)"
  by (simp add: method_f_def example_self_x type_comment_signature_def example_parser_def
      make_func_type_def as_block_def new_def or_any_def Var_def)

text \<open>Whatever the flag was, a class definition that converts leaves it clear.\<close>

lemma visit_ClassDef_in_class_False:
  "visit_stmt T d (ast_ClassDef l nm bases keywords body decorator_list) self = Inr (n, self')
   \<Longrightarrow> \<not> in_class self'"
  by (auto simp: with_line_s_def ebind_def Let_def split: sum.splits option.splits)

text \<open>
  C5.  \<open>visit_ClassDef\<close> ends with \<open>self.in_class = False\<close> whatever the flag was before.
  Converted inside the body of another class (flag set), \<open>class Inner: pass\<close> leaves the
  flag clear, and the method that follows it in \<open>class Outer\<close> is converted without the
  implicit first type that the same method gets when \<open>Inner\<close> is not in front of it.
\<close>

theorem visit_ClassDef_nested_clears_in_class:
  "visit_stmt example_parser 0 (class_Inner 2) \<lparr>in_class = True, imports_acc = []\<rparr>
   = Inr (Node (Assigned 2)
            (ClassDef ''Inner'' (Node Unassigned (Block [Node (Assigned 3) PassStmt])) [] None []),
          \<lparr>in_class = False, imports_acc = []\<rparr>)
   \<and> visit_stmts example_parser 0 [class_Inner 2, method_f 4 ''(int) -> None'']
       \<lparr>in_class = True, imports_acc = []\<rparr>
     = Inr ([Node (Assigned 2)
               (ClassDef ''Inner'' (Node Unassigned (Block [Node (Assigned 3) PassStmt])) [] None []),
             Node (Assigned 4)
               (FuncDef ''f''
                  [Argument (Var ''self'') None None ARG_POS,
                   Argument (Var ''x'') None None ARG_POS]
                  (Some (Node (Assigned 4) (Block [Node (Assigned 5) PassStmt])))
                  (Some (CallableType [UnboundType ''int'' [] (Assigned 4)]
                           [ARG_POS, ARG_POS] [''self'', ''x'']
                           (UnboundType ''None'' [] Unassigned)))
                  Unassigned)],
            \<lparr>in_class = False, imports_acc = []\<rparr>)
   \<and> visit_stmts example_parser 0 [method_f 4 ''(int) -> None'']
       \<lparr>in_class = True, imports_acc = []\<rparr>
     = Inr ([Node (Assigned 4)
               (FuncDef ''f''
                  [Argument (Var ''self'') None None ARG_POS,
                   Argument (Var ''x'') None None ARG_POS]
                  (Some (Node (Assigned 4) (Block [Node (Assigned 5) PassStmt])))
                  (Some (CallableType [AnyType, UnboundType ''int'' [] (Assigned 4)]
                           [ARG_POS, ARG_POS] [''self'', ''x'']
                           (UnboundType ''None'' [] Unassigned)))
                  Unassigned)],
            \<lparr>in_class = True, imports_acc = []\<rparr>)"
proof -
  have inner: "visit_stmt example_parser 0 (class_Inner 2) \<lparr>in_class = True, imports_acc = []\<rparr>
   = Inr (Node (Assigned 2)
            (ClassDef ''Inner'' (Node Unassigned (Block [Node (Assigned 3) PassStmt])) [] None []),
          \<lparr>in_class = False, imports_acc = []\<rparr>)"
    by (simp add: class_Inner_def visit_list_def fix_function_overloads_def is_Decorator_def
        flush_overload_def new_def)
  show ?thesis
    by (simp add: inner example_method_f)
qed

subsection \<open>Unsupported constructs and the diagnostics sink\<close>






subsection \<open>Lines of the other nodes\<close>

lemma with_line_get_line: "with_line l r = Inr n \<Longrightarrow> get_line n = Assigned l"
  by (auto simp: with_line_def ebind_def set_line_def split: sum.splits)

lemma with_line_s_get_line: "with_line_s l r = Inr (n, s) \<Longrightarrow> get_line n = Assigned l"
  by (auto simp: with_line_s_def ebind_def set_line_def split: sum.splits)

text \<open>
  Every expression handler but \<open>visit_NameConstant\<close> returns its node with the line of the
  source node, and so does every statement handler.
\<close>

lemma visit_expr_line:
  "visit_expr T d n = Inr node \<Longrightarrow>
   get_line node = (case n of ast_NameConstant l v \<Rightarrow> Unassigned | _ \<Rightarrow> Assigned (lineno n))"
  by (cases n)
     (auto dest: with_line_get_line
           simp: visit_GeneratorExp_of_def generic_visit_def new_def
           split: if_splits option.splits)

lemma visit_stmt_line:
  "visit_stmt T d n self = Inr (node, self') \<Longrightarrow> get_line node = Assigned (stmt_lineno n)"
  by (cases n)
     (auto dest: with_line_s_get_line simp: generic_visit_def Let_def set_line_def)

end
